theory Spec2Isabelle
  imports Main
begin

section \<open>JavaScript values\<close>

text \<open>
  The values that flow through \<^verbatim>\<open>src/contract/default.ts\<close> are untyped at run time
  (\<^verbatim>\<open>args: any\<close>, \<^verbatim>\<open>@ts-ignore\<close>), so they are modelled as JavaScript values.
  An array carries its elements and its extra named properties: a compiled Calldata is
  an array of words with the property \<^verbatim>\<open>compiled\<close>.
\<close>

datatype jsval =
    JUndefined
  | JNull
  | JBool bool
  | JNum int
  | JStr string
  | JObj "(string \<times> jsval) list"
  | JArr "jsval list" "(string \<times> jsval) list"

text \<open>
  What the code throws: \<^verbatim>\<open>new Error(message)\<close> (also through \<^verbatim>\<open>assert\<close>), and the
  \<^verbatim>\<open>TypeError\<close> of the language itself (a property read on \<^verbatim>\<open>null\<close>, \<^verbatim>\<open>in\<close> on a
  non-object, destructuring \<^verbatim>\<open>undefined\<close>, a call of something that is no function,
  an assignment to a read-only property).
\<close>

datatype error = Error string | TypeError

fun typeof :: "jsval \<Rightarrow> string" where
  "typeof JUndefined = ''undefined''"
| "typeof JNull = ''object''"
| "typeof (JBool b) = ''boolean''"
| "typeof (JNum n) = ''number''"
| "typeof (JStr s) = ''string''"
| "typeof (JObj kvs) = ''object''"
| "typeof (JArr es ps) = ''object''"

text \<open>Truthiness, as \<^verbatim>\<open>if (v)\<close>, \<^verbatim>\<open>!v\<close>, \<^verbatim>\<open>v && w\<close> and \<^verbatim>\<open>Boolean(v)\<close> read it.\<close>

fun truthy :: "jsval \<Rightarrow> bool" where
  "truthy JUndefined = False"
| "truthy JNull = False"
| "truthy (JBool b) = b"
| "truthy (JNum n) = (n \<noteq> 0)"
| "truthy (JStr s) = (s \<noteq> [])"
| "truthy (JObj kvs) = True"
| "truthy (JArr es ps) = True"

text \<open>
  \<^verbatim>\<open>k in v\<close> for a named key \<^verbatim>\<open>k\<close>. It throws on every value that is not an object,
  \<^verbatim>\<open>null\<close> included. The keys asked for in this program are option names, which are
  neither array indices nor members of the built-in prototypes, so only the value's own
  named properties decide.
\<close>

fun js_in :: "string \<Rightarrow> jsval \<Rightarrow> error + bool" where
  "js_in k (JObj kvs) = Inr (k \<in> fst ` set kvs)"
| "js_in k (JArr es ps) = Inr (k \<in> fst ` set ps)"
| "js_in k v = Inl TypeError"

text \<open>\<^verbatim>\<open>v.k\<close> for a named key: \<^verbatim>\<open>undefined\<close> when the property is missing.\<close>

fun member :: "jsval \<Rightarrow> string \<Rightarrow> error + jsval" where
  "member JUndefined k = Inl TypeError"
| "member JNull k = Inl TypeError"
| "member (JObj kvs) k = Inr (case map_of kvs k of Some v \<Rightarrow> v | None \<Rightarrow> JUndefined)"
| "member (JArr es ps) k = Inr (case map_of ps k of Some v \<Rightarrow> v | None \<Rightarrow> JUndefined)"
| "member v k = Inr JUndefined"

text \<open>\<^verbatim>\<open>v?.k\<close>: optional chaining gives \<^verbatim>\<open>undefined\<close> on \<^verbatim>\<open>null\<close> and \<^verbatim>\<open>undefined\<close>.\<close>

fun opt_member :: "jsval \<Rightarrow> string \<Rightarrow> jsval" where
  "opt_member (JObj kvs) k = (case map_of kvs k of Some v \<Rightarrow> v | None \<Rightarrow> JUndefined)"
| "opt_member (JArr es ps) k = (case map_of ps k of Some v \<Rightarrow> v | None \<Rightarrow> JUndefined)"
| "opt_member v k = JUndefined"

text \<open>\<^verbatim>\<open>v[0]\<close>.\<close>

fun index0 :: "jsval \<Rightarrow> error + jsval" where
  "index0 JUndefined = Inl TypeError"
| "index0 JNull = Inl TypeError"
| "index0 (JArr es ps) = Inr (case es of [] \<Rightarrow> JUndefined | e # _ \<Rightarrow> e)"
| "index0 (JObj kvs) = Inr (case map_of kvs ''0'' of Some v \<Rightarrow> v | None \<Rightarrow> JUndefined)"
| "index0 (JStr s) = Inr (case s of [] \<Rightarrow> JUndefined | c # _ \<Rightarrow> JStr [c])"
| "index0 v = Inr JUndefined"

section \<open>The argument/option splitter\<close>

text \<open>The \<^verbatim>\<open>options\<close> list of \<^verbatim>\<open>splitArgsAndOptions\<close>.\<close>

definition option_keys :: "string list" where
  "option_keys =
     [''blockIdentifier'', ''parseRequest'', ''parseResponse'', ''formatResponse'',
      ''maxFee'', ''nonce'', ''signature'']"

text \<open>\<^verbatim>\<open>options.some((x) => x in lastArg)\<close>: left to right, stopping at the first hit or throw.\<close>

fun some_in :: "string list \<Rightarrow> jsval \<Rightarrow> error + bool" where
  "some_in [] v = Inr False"
| "some_in (x # xs) v =
     (case js_in x v of
        Inl e \<Rightarrow> Inl e
      | Inr True \<Rightarrow> Inr True
      | Inr False \<Rightarrow> some_in xs v)"

text \<open>
  \<^verbatim>\<open>splitArgsAndOptions(args)\<close> on the rest-parameter array of a bound call. The result
  is the pair (\<^verbatim>\<open>args\<close>, \<^verbatim>\<open>options\<close>) of the returned object. \<^verbatim>\<open>args.pop()\<close> removes
  the last element from the very array that is returned as \<^verbatim>\<open>args\<close>. On the empty
  array \<^verbatim>\<open>args[args.length - 1]\<close> is \<^verbatim>\<open>undefined\<close>.
\<close>

definition splitArgsAndOptions :: "jsval list \<Rightarrow> error + (jsval list \<times> jsval)" where
  "splitArgsAndOptions args =
     (let lastArg = (if args = [] then JUndefined else last args) in
      if typeof lastArg = ''object'' then
        (case some_in option_keys lastArg of
           Inl e \<Rightarrow> Inl e
         | Inr True \<Rightarrow> Inr (butlast args, lastArg)
         | Inr False \<Rightarrow> Inr (args, JObj []))
      else Inr (args, JObj []))"

section \<open>Schema, requests and collaborators\<close>

text \<open>
  An entry of the ABI. \<^verbatim>\<open>abi_type\<close> is the entry's \<^verbatim>\<open>type\<close> field; a field the entry
  does not have reads as \<^verbatim>\<open>undefined\<close>.
\<close>

record abi_entry =
  abi_type :: string
  name :: string
  inputs :: jsval
  stateMutability :: jsval
  state_mutability :: jsval

text \<open>
  The functions that \<^verbatim>\<open>buildCall\<close>, \<^verbatim>\<open>buildInvoke\<close>, \<^verbatim>\<open>buildPopulate\<close> and
  \<^verbatim>\<open>buildEstimate\<close> return are closures over the contract and the ABI entry. The
  contract is the instance they are bound on, so a closure is its kind and its entry.
\<close>

datatype bound_fn =
    CallFn abi_entry
  | InvokeFn abi_entry
  | PopulateFn abi_entry
  | EstimateFn abi_entry

text \<open>
  What a property of the instance can hold: a plain value, a bound function, something
  inherited (a method of the class or of \<^verbatim>\<open>Object.prototype\<close>), or one of the
  instance's own objects (the ABI, the backend, the collections).
\<close>

datatype pval =
    PVal jsval
  | PBound bound_fn
  | PInherited string
  | PObject string

fun truthy_p :: "pval \<Rightarrow> bool" where
  "truthy_p (PVal v) = truthy v"
| "truthy_p (PBound f) = True"
| "truthy_p (PInherited k) = True"
| "truthy_p (PObject k) = True"

text \<open>The \<^verbatim>\<open>Call\<close> object; \<^verbatim>\<open>contractAddress\<close> is whatever \<^verbatim>\<open>this.address\<close> holds.\<close>

record call_obj =
  contractAddress :: pval
  calldata :: jsval
  entrypoint :: string

datatype ValidateType = CALL | INVOKE | DEPLOY

record compiled_contract =
  cc_abi :: "abi_entry list"
  cc_program :: jsval

text \<open>The argument of \<^verbatim>\<open>declareAndDeploy\<close>.\<close>

record deploy_payload =
  contract :: compiled_contract
  casm :: jsval
  classHash :: jsval
  compiledClassHash :: jsval
  constructorCalldata :: jsval
  salt :: jsval

text \<open>
  The class \<^verbatim>\<open>CallData\<close> (\<^verbatim>\<open>utils/calldata\<close>) is a collaborator: an instance is the
  four operations the contract uses. \<^verbatim>\<open>validate\<close> returns the error it throws, if any.
\<close>

record calldata_ops =
  validate :: "ValidateType \<Rightarrow> string \<Rightarrow> jsval \<Rightarrow> error option"
  compile :: "jsval \<Rightarrow> jsval \<Rightarrow> error + jsval"
  parse :: "string \<Rightarrow> jsval \<Rightarrow> error + jsval"
  format :: "string \<Rightarrow> jsval \<Rightarrow> jsval \<Rightarrow> error + jsval"

text \<open>
  The backend (\<^verbatim>\<open>ProviderInterface | AccountInterface\<close>). Every provider has
  \<^verbatim>\<open>callContract\<close> and \<^verbatim>\<open>invokeFunction\<close>; \<^verbatim>\<open>execute\<close>, \<^verbatim>\<open>estimateInvokeFee\<close> and
  \<^verbatim>\<open>declareAndDeploy\<close> are there on an account only, and the code asks for the first
  two with \<^verbatim>\<open>in\<close>. A response is the value the promise resolves to, or the error it
  rejects with.
\<close>

record backend =
  callContract :: "call_obj \<Rightarrow> jsval \<Rightarrow> error + jsval"
  invokeFunction :: "call_obj \<Rightarrow> jsval \<Rightarrow> jsval \<Rightarrow> error + jsval"
  execute :: "(call_obj \<Rightarrow> jsval \<Rightarrow> jsval \<Rightarrow> error + jsval) option"
  estimateInvokeFee :: "(call_obj \<Rightarrow> error + jsval) option"
  declareAndDeploy :: "(deploy_payload \<Rightarrow> error + jsval) option"

section \<open>Effects\<close>

text \<open>
  Everything observable outside the contract, in the order it happens: warnings on the
  console, calls into the Calldata compiler, and requests to the backend.
\<close>

datatype event =
    Warn string
  | Validate ValidateType string jsval
  | Compile jsval jsval
  | Parse string jsval
  | Format string jsval jsval
  | CallContract call_obj jsval
  | Execute call_obj jsval jsval
  | InvokeFunction call_obj jsval jsval
  | EstimateInvokeFee call_obj
  | DeclareAndDeploy deploy_payload

type_synonym 'a io = "event list \<times> (error + 'a)"

definition ret :: "'a \<Rightarrow> 'a io" where
  "ret x = ([], Inr x)"

definition throw :: "error \<Rightarrow> 'a io" where
  "throw e = ([], Inl e)"

definition lift :: "error + 'a \<Rightarrow> 'a io" where
  "lift r = ([], r)"

definition emit :: "event \<Rightarrow> unit io" where
  "emit ev = ([ev], Inr ())"

text \<open>Sequencing: a throw ends the computation, keeping what was observed before it.\<close>

definition io_bind :: "'a io \<Rightarrow> ('a \<Rightarrow> 'b io) \<Rightarrow> 'b io" where
  "io_bind m f =
     (case m of
        (t, Inl e) \<Rightarrow> (t, Inl e)
      | (t, Inr x) \<Rightarrow> (case f x of (t', r) \<Rightarrow> (t @ t', r)))"

text \<open>
  Modelled from the spec: \<^verbatim>\<open>assert\<close> of \<^verbatim>\<open>utils/assert\<close>, which is not among the
  sources. A failed assertion is fatal and carries the message.
\<close>

definition assert :: "bool \<Rightarrow> string \<Rightarrow> unit io" where
  "assert cond msg = (if cond then ret () else throw (Error msg))"

definition do_validate :: "calldata_ops \<Rightarrow> ValidateType \<Rightarrow> string \<Rightarrow> jsval \<Rightarrow> unit io" where
  "do_validate cd m method args =
     io_bind (emit (Validate m method args))
       (\<lambda>_. case validate cd m method args of None \<Rightarrow> ret () | Some e \<Rightarrow> throw e)"

definition do_compile :: "calldata_ops \<Rightarrow> jsval \<Rightarrow> jsval \<Rightarrow> jsval io" where
  "do_compile cd a b = io_bind (emit (Compile a b)) (\<lambda>_. lift (compile cd a b))"

definition do_parse :: "calldata_ops \<Rightarrow> string \<Rightarrow> jsval \<Rightarrow> jsval io" where
  "do_parse cd method r = io_bind (emit (Parse method r)) (\<lambda>_. lift (parse cd method r))"

definition do_format :: "calldata_ops \<Rightarrow> string \<Rightarrow> jsval \<Rightarrow> jsval \<Rightarrow> jsval io" where
  "do_format cd method r fmt =
     io_bind (emit (Format method r fmt)) (\<lambda>_. lift (format cd method r fmt))"

section \<open>Resolving arguments to Calldata\<close>

text \<open>
  \<^verbatim>\<open>getCalldata(args, callback)\<close>. The callback is the computation it stands for; it
  runs only in the last branch. \<^verbatim>\<open>args[0]\<close> throws on \<^verbatim>\<open>null\<close>.
\<close>

definition getCalldata :: "jsval \<Rightarrow> jsval io \<Rightarrow> jsval io" where
  "getCalldata args callback =
     (if truthy (opt_member args ''compiled'') then ret args
      else
        (case index0 args of
           Inl e \<Rightarrow> throw e
         | Inr a0 \<Rightarrow> if truthy (opt_member a0 ''compiled'') then ret a0 else callback))"

text \<open>A default parameter value or destructuring default: it replaces \<^verbatim>\<open>undefined\<close> only.\<close>

definition dflt :: "jsval \<Rightarrow> jsval \<Rightarrow> jsval" where
  "dflt v d = (if v = JUndefined then d else v)"

section \<open>The contract\<close>

text \<open>
  The instance. \<^verbatim>\<open>abi\<close>, \<^verbatim>\<open>providerOrAccount\<close> and \<^verbatim>\<open>callData\<close> always hold objects;
  \<^verbatim>\<open>props\<close> holds the other properties defined on the instance itself: \<^verbatim>\<open>address\<close>,
  \<^verbatim>\<open>deployTransactionHash\<close> and whatever the constructor binds. The four collections
  are objects of their own.
\<close>

record contract =
  abi :: "abi_entry list"
  providerOrAccount :: backend
  callData :: calldata_ops
  props :: "string \<Rightarrow> pval option"
  "functions" :: "string \<Rightarrow> bound_fn option"
  callStatic :: "string \<Rightarrow> bound_fn option"
  populateTransaction :: "string \<Rightarrow> bound_fn option"
  estimateFee :: "string \<Rightarrow> bound_fn option"

text \<open>\<^verbatim>\<open>this.address\<close>.\<close>

definition address :: "contract \<Rightarrow> pval" where
  "address c = (case props c ''address'' of Some v \<Rightarrow> v | None \<Rightarrow> PVal JUndefined)"

text \<open>
  \<^verbatim>\<open>call(method, args = [], {parseRequest = true, parseResponse = true, formatResponse,
  blockIdentifier} = {})\<close>. Destructuring \<^verbatim>\<open>null\<close> throws before the body runs.
\<close>

definition call :: "contract \<Rightarrow> string \<Rightarrow> jsval \<Rightarrow> jsval \<Rightarrow> jsval io" where
  "call c method args0 options0 =
     (let args = dflt args0 (JArr [] []);
          opts = dflt options0 (JObj []);
          parseRequest = dflt (opt_member opts ''parseRequest'') (JBool True);
          parseResponse = dflt (opt_member opts ''parseResponse'') (JBool True);
          formatResponse = opt_member opts ''formatResponse'';
          blockIdentifier = opt_member opts ''blockIdentifier''
      in
      if opts = JNull then throw TypeError
      else
        io_bind (assert (address c \<noteq> PVal JNull) ''contract is not connected to an address'')
          (\<lambda>_.
        io_bind
          (getCalldata args
             (if truthy parseRequest then
                (case find (\<lambda>e. name e = method) (abi c) of
                   None \<Rightarrow> throw TypeError
                 | Some f \<Rightarrow>
                     io_bind (do_validate (callData c) CALL method args)
                       (\<lambda>_. do_compile (callData c) args (inputs f)))
              else
                io_bind
                  (emit (Warn
                     ''Call skipped parsing but provided rawArgs, possible malfunction request''))
                  (\<lambda>_. ret args)))
          (\<lambda>cd.
        io_bind (emit (CallContract
                   \<lparr>contractAddress = address c, calldata = cd, entrypoint = method\<rparr>
                   blockIdentifier))
          (\<lambda>_.
        io_bind (lift (callContract (providerOrAccount c)
                   \<lparr>contractAddress = address c, calldata = cd, entrypoint = method\<rparr>
                   blockIdentifier))
          (\<lambda>x.
        io_bind (lift (member x ''result''))
          (\<lambda>r.
             if \<not> truthy parseResponse then ret r
             else if truthy formatResponse then do_format (callData c) method r formatResponse
             else do_parse (callData c) method r))))))"

text \<open>
  \<^verbatim>\<open>invoke(method, args = [], {parseRequest = true, maxFee, nonce, signature} = {})\<close>.
\<close>

definition invoke :: "contract \<Rightarrow> string \<Rightarrow> jsval \<Rightarrow> jsval \<Rightarrow> jsval io" where
  "invoke c method args0 options0 =
     (let args = dflt args0 (JArr [] []);
          opts = dflt options0 (JObj []);
          parseRequest = dflt (opt_member opts ''parseRequest'') (JBool True);
          maxFee = opt_member opts ''maxFee'';
          nonce = opt_member opts ''nonce'';
          signature = opt_member opts ''signature''
      in
      if opts = JNull then throw TypeError
      else
        io_bind (assert (address c \<noteq> PVal JNull) ''contract is not connected to an address'')
          (\<lambda>_.
        io_bind
          (getCalldata args
             (if truthy parseRequest then
                (case find (\<lambda>e. name e = method) (abi c) of
                   None \<Rightarrow> throw TypeError
                 | Some f \<Rightarrow>
                     io_bind (do_validate (callData c) INVOKE method args)
                       (\<lambda>_. do_compile (callData c) args (inputs f)))
              else
                io_bind
                  (emit (Warn
                     ''Invoke skipped parsing but provided rawArgs, possible malfunction request''))
                  (\<lambda>_. ret args)))
          (\<lambda>cd.
             let invocation =
               \<lparr>contractAddress = address c, calldata = cd, entrypoint = method\<rparr>
             in
             (case execute (providerOrAccount c) of
                Some exec \<Rightarrow>
                  io_bind (emit (Execute invocation maxFee nonce))
                    (\<lambda>_. lift (exec invocation maxFee nonce))
              | None \<Rightarrow>
                  if \<not> truthy nonce then
                    throw (Error
                      ''Nonce is required when invoking a function without an account'')
                  else
                    io_bind
                      (emit (Warn (''Invoking '' @ method @
                         '' without an account. This will not work on a public node.'')))
                      (\<lambda>_.
                    io_bind (emit (InvokeFunction invocation signature nonce))
                      (\<lambda>_. lift (invokeFunction (providerOrAccount c)
                              invocation signature nonce)))))))"

text \<open>
  \<^verbatim>\<open>attach(address)\<close>, that is \<^verbatim>\<open>this.address = address\<close>: the assignment throws in
  strict code when binding has defined the property (\<^verbatim>\<open>writable: false\<close>).
\<close>

definition attach :: "contract \<Rightarrow> jsval \<Rightarrow> error + contract" where
  "attach c addr =
     (case props c ''address'' of
        Some (PBound f) \<Rightarrow> Inl TypeError
      | _ \<Rightarrow> Inr (c\<lparr>props := (props c)(''address'' \<mapsto> PVal addr)\<rparr>))"

text \<open>\<^verbatim>\<open>populate(method, args = [])\<close>: the method's entry is looked up first.\<close>

definition populate :: "contract \<Rightarrow> string \<Rightarrow> jsval \<Rightarrow> call_obj io" where
  "populate c method args0 =
     (let args = dflt args0 (JArr [] []) in
      case find (\<lambda>e. name e = method) (abi c) of
        None \<Rightarrow> throw TypeError
      | Some f \<Rightarrow>
          io_bind (getCalldata args (do_compile (callData c) args (inputs f)))
            (\<lambda>cd. ret \<lparr>contractAddress = address c, calldata = cd, entrypoint = method\<rparr>))"

text \<open>\<^verbatim>\<open>estimate(method, args = [])\<close>.\<close>

definition estimate :: "contract \<Rightarrow> string \<Rightarrow> jsval \<Rightarrow> jsval io" where
  "estimate c method args0 =
     (let args = dflt args0 (JArr [] []) in
      io_bind (assert (address c \<noteq> PVal JNull) ''contract is not connected to an address'')
        (\<lambda>_.
      io_bind (getCalldata args (ret (JBool False)))
        (\<lambda>g.
      io_bind
        (if \<not> truthy g then do_validate (callData c) INVOKE method args else ret ())
        (\<lambda>_.
      io_bind (populate c method args)
        (\<lambda>invocation.
           case estimateInvokeFee (providerOrAccount c) of
             Some est \<Rightarrow>
               io_bind (emit (EstimateInvokeFee invocation)) (\<lambda>_. lift (est invocation))
           | None \<Rightarrow>
               throw (Error
                 ''Contract must be connected to the account contract to estimate''))))))"

section \<open>Bound operations\<close>

definition buildCall :: "abi_entry \<Rightarrow> bound_fn" where
  "buildCall functionAbi = CallFn functionAbi"

definition buildInvoke :: "abi_entry \<Rightarrow> bound_fn" where
  "buildInvoke functionAbi = InvokeFn functionAbi"

definition buildDefault :: "abi_entry \<Rightarrow> bound_fn" where
  "buildDefault functionAbi =
     (if stateMutability functionAbi = JStr ''view'' \<or> state_mutability functionAbi = JStr ''view''
      then buildCall functionAbi
      else buildInvoke functionAbi)"

definition buildPopulate :: "abi_entry \<Rightarrow> bound_fn" where
  "buildPopulate functionAbi = PopulateFn functionAbi"

definition buildEstimate :: "abi_entry \<Rightarrow> bound_fn" where
  "buildEstimate functionAbi = EstimateFn functionAbi"

text \<open>
  The properties of \<^verbatim>\<open>{fixed..., ...v}\<close> as an association list read from the left:
  the spread value's own properties come first, so they win over the fixed ones. The
  index keys of an array are left out; no reader of an options object asks for them.
\<close>

fun spread :: "(string \<times> jsval) list \<Rightarrow> jsval \<Rightarrow> (string \<times> jsval) list" where
  "spread base (JObj kvs) = kvs @ base"
| "spread base (JArr es ps) = ps @ base"
| "spread base v = base"

datatype result = RVal jsval | RCall call_obj

text \<open>
  Calling a bound function on the instance \<^verbatim>\<open>c\<close> with the argument list \<^verbatim>\<open>args\<close>
  (the bodies of the four closures).
\<close>

fun apply_bound :: "contract \<Rightarrow> bound_fn \<Rightarrow> jsval list \<Rightarrow> result io" where
  "apply_bound c (CallFn functionAbi) args =
     io_bind (lift (splitArgsAndOptions args))
       (\<lambda>params.
          io_bind
            (call c (name functionAbi) (JArr (fst params) [])
               (JObj (spread [(''parseRequest'', JBool True), (''parseResponse'', JBool True)]
                        (snd params))))
            (\<lambda>r. ret (RVal r)))"
| "apply_bound c (InvokeFn functionAbi) args =
     io_bind (lift (splitArgsAndOptions args))
       (\<lambda>params.
          io_bind
            (invoke c (name functionAbi) (JArr (fst params) [])
               (JObj (spread [(''parseRequest'', JBool True)] (snd params))))
            (\<lambda>r. ret (RVal r)))"
| "apply_bound c (PopulateFn functionAbi) args =
     io_bind (populate c (name functionAbi) (JArr args [])) (\<lambda>r. ret (RCall r))"
| "apply_bound c (EstimateFn functionAbi) args =
     io_bind (estimate c (name functionAbi) (JArr args [])) (\<lambda>r. ret (RVal r))"

section \<open>Construction and method binding\<close>

text \<open>The own properties of an instance that hold objects from the start.\<close>

definition instance_objects :: "string list" where
  "instance_objects =
     [''providerOrAccount'', ''callData'', ''structs'', ''abi'',
      ''functions'', ''callStatic'', ''populateTransaction'', ''estimateFee'']"

text \<open>The members of the class \<^verbatim>\<open>Contract\<close>, found through the prototype.\<close>

definition class_members :: "string list" where
  "class_members =
     [''constructor'', ''attach'', ''connect'', ''deployed'',
      ''call'', ''invoke'', ''estimate'', ''populate'']"

text \<open>The members of \<^verbatim>\<open>Object.prototype\<close>, which every object inherits.\<close>

definition object_members :: "string list" where
  "object_members =
     [''constructor'', ''__defineGetter__'', ''__defineSetter__'', ''hasOwnProperty'',
      ''__lookupGetter__'', ''__lookupSetter__'', ''isPrototypeOf'',
      ''propertyIsEnumerable'', ''toString'', ''valueOf'', ''__proto__'',
      ''toLocaleString'']"

text \<open>\<^verbatim>\<open>this[signature]\<close>.\<close>

definition this_get :: "contract \<Rightarrow> string \<Rightarrow> pval" where
  "this_get c k =
     (case props c k of
        Some v \<Rightarrow> v
      | None \<Rightarrow>
          if k \<in> set instance_objects then PObject k
          else if k \<in> set class_members \<or> k \<in> set object_members then PInherited k
          else PVal JUndefined)"

text \<open>\<^verbatim>\<open>this.functions[signature]\<close>, and the same for the other three collections.\<close>

definition coll_get :: "(string \<Rightarrow> bound_fn option) \<Rightarrow> string \<Rightarrow> pval" where
  "coll_get m k =
     (case m k of
        Some f \<Rightarrow> PBound f
      | None \<Rightarrow> if k \<in> set object_members then PInherited k else PVal JUndefined)"

text \<open>
  The body of the \<^verbatim>\<open>forEach\<close> in the constructor. \<^verbatim>\<open>Object.defineProperty\<close> replaces
  a property that an assignment created.
\<close>

definition bindAbiElement :: "abi_entry \<Rightarrow> contract \<Rightarrow> contract" where
  "bindAbiElement abiElement c =
     (if abi_type abiElement \<noteq> ''function'' then c
      else
        let signature = name abiElement;
            c1 = (if \<not> truthy_p (this_get c signature)
                  then c\<lparr>props := (props c)(signature \<mapsto> PBound (buildDefault abiElement))\<rparr>
                  else c);
            c2 = (if \<not> truthy_p (coll_get (functions c1) signature)
                  then c1\<lparr>functions := (functions c1)(signature \<mapsto> buildDefault abiElement)\<rparr>
                  else c1);
            c3 = (if \<not> truthy_p (coll_get (callStatic c2) signature)
                  then c2\<lparr>callStatic := (callStatic c2)(signature \<mapsto> buildCall abiElement)\<rparr>
                  else c2);
            c4 = (if \<not> truthy_p (coll_get (populateTransaction c3) signature)
                  then c3\<lparr>populateTransaction :=
                            (populateTransaction c3)(signature \<mapsto> buildPopulate abiElement)\<rparr>
                  else c3)
        in
          if \<not> truthy_p (coll_get (estimateFee c4) signature)
          then c4\<lparr>estimateFee := (estimateFee c4)(signature \<mapsto> buildEstimate abiElement)\<rparr>
          else c4)"

text \<open>\<^verbatim>\<open>String.prototype.toLowerCase\<close> on the ASCII letters (an address is hexadecimal).\<close>

definition lower_char :: "char \<Rightarrow> char" where
  "lower_char ch =
     (case map_of (zip ''ABCDEFGHIJKLMNOPQRSTUVWXYZ'' ''abcdefghijklmnopqrstuvwxyz'') ch of
        Some l \<Rightarrow> l
      | None \<Rightarrow> ch)"

definition toLowerCase :: "string \<Rightarrow> string" where
  "toLowerCase s = map lower_char s"

text \<open>
  \<^verbatim>\<open>new Contract(abi, address, providerOrAccount)\<close>. \<^verbatim>\<open>new CallData(abi)\<close> is the
  parameter \<^verbatim>\<open>new_CallData\<close>; the backend is the one given or the default provider.
  \<^verbatim>\<open>address && address.toLowerCase()\<close> keeps a falsy address as it is and throws on a
  truthy value that is no string.
\<close>

definition Contract ::
  "(abi_entry list \<Rightarrow> calldata_ops) \<Rightarrow> abi_entry list \<Rightarrow> jsval \<Rightarrow> backend \<Rightarrow> error + contract"
where
  "Contract new_CallData abi0 address0 provider =
     (case (if truthy address0
            then (case address0 of JStr s \<Rightarrow> Inr (JStr (toLowerCase s)) | _ \<Rightarrow> Inl TypeError)
            else Inr address0) of
        Inl e \<Rightarrow> Inl e
      | Inr a \<Rightarrow>
          Inr (fold bindAbiElement abi0
                 \<lparr>abi = abi0, providerOrAccount = provider, callData = new_CallData abi0,
                  props = [''address'' \<mapsto> PVal a],
                  functions = Map.empty, callStatic = Map.empty,
                  populateTransaction = Map.empty, estimateFee = Map.empty\<rparr>))"

section \<open>The deployment factory\<close>

record ContractFactory =
  cf_compiledContract :: compiled_contract
  cf_account :: backend
  cf_abi :: "abi_entry list"
  cf_classHash :: jsval
  cf_casm :: jsval
  cf_compiledClassHash :: jsval
  cf_CallData :: calldata_ops



section \<open>Notions used in the statements\<close>

text \<open>A value carries the compiled tag when its \<^verbatim>\<open>compiled\<close> property is truthy.\<close>

definition tagged :: "jsval \<Rightarrow> bool" where
  "tagged v = truthy (opt_member v ''compiled'')"

text \<open>
  The Calldata that an \<^verbatim>\<open>args\<close> value carries already compiled, if any: the value
  itself when it is tagged, else its first element when that is tagged (the two tests
  of \<^verbatim>\<open>getCalldata\<close>).
\<close>

definition precompiled :: "jsval \<Rightarrow> jsval option" where
  "precompiled args =
     (if tagged args then Some args
      else
        (case index0 args of
           Inl e \<Rightarrow> None
         | Inr a0 \<Rightarrow> if tagged a0 then Some a0 else None))"

text \<open>The requests of the write path, of the read path, and the compiler's input side.\<close>

fun is_write :: "event \<Rightarrow> bool" where
  "is_write (Execute cl mf n) = True"
| "is_write (InvokeFunction cl sg n) = True"
| "is_write ev = False"

fun is_read :: "event \<Rightarrow> bool" where
  "is_read (CallContract cl b) = True"
| "is_read ev = False"

fun is_validate_or_compile :: "event \<Rightarrow> bool" where
  "is_validate_or_compile (Validate m method a) = True"
| "is_validate_or_compile (Compile a b) = True"
| "is_validate_or_compile ev = False"

section \<open>Sample collaborators and schemas\<close>

text \<open>
  A Calldata compiler that accepts everything and tags the array it is given (as the
  first argument by the contract, as the second by the factory), a backend
  with the provider's capabilities only, and an account.
\<close>

definition sample_CallData :: "abi_entry list \<Rightarrow> calldata_ops" where
  "sample_CallData a =
     \<lparr>validate = (\<lambda>m method args. None),
      compile = (\<lambda>x y. Inr (case x of
                              JArr es ps \<Rightarrow> JArr es [(''compiled'', JBool True)]
                            | _ \<Rightarrow>
                                (case y of
                                   JArr es ps \<Rightarrow> JArr es [(''compiled'', JBool True)]
                                 | _ \<Rightarrow> JArr [] [(''compiled'', JBool True)]))),
      parse = (\<lambda>method r. Inr r),
      format = (\<lambda>method r fmt. Inr r)\<rparr>"

definition sample_provider :: backend where
  "sample_provider =
     \<lparr>callContract = (\<lambda>cl b. Inr (JObj [(''result'', JArr [JStr ''0x1''] [])])),
      invokeFunction = (\<lambda>cl sg n. Inr (JObj [(''transaction_hash'', JStr ''0x7'')])),
      execute = None,
      estimateInvokeFee = None,
      declareAndDeploy = None\<rparr>"

definition sample_account :: backend where
  "sample_account =
     \<lparr>callContract = (\<lambda>cl b. Inr (JObj [(''result'', JArr [JStr ''0x1''] [])])),
      invokeFunction = (\<lambda>cl sg n. Inr (JObj [(''transaction_hash'', JStr ''0x7'')])),
      execute = Some (\<lambda>cl mf n. Inr (JObj [(''transaction_hash'', JStr ''0x8'')])),
      estimateInvokeFee = Some (\<lambda>cl. Inr (JObj [(''overall_fee'', JNum 5)])),
      declareAndDeploy =
        Some (\<lambda>p. Inr (JObj [(''deploy'',
                 JObj [(''contract_address'', JStr ''0xABC''),
                       (''transaction_hash'', JStr ''0x9'')])]))\<rparr>"

text \<open>An account whose \<^verbatim>\<open>declareAndDeploy\<close> answers with an empty address.\<close>

definition failing_account :: backend where
  "failing_account =
     sample_account
       \<lparr>declareAndDeploy :=
          Some (\<lambda>p. Inr (JObj [(''deploy'',
                   JObj [(''contract_address'', JStr []),
                         (''transaction_hash'', JStr ''0x9'')])]))\<rparr>"

definition felt_input :: "string \<Rightarrow> jsval" where
  "felt_input n = JObj [(''name'', JStr n), (''type'', JStr ''felt'')]"

definition transfer_fn :: abi_entry where
  "transfer_fn =
     \<lparr>abi_type = ''function'', name = ''transfer'',
      inputs = JArr [felt_input ''recipient'', felt_input ''amount''] [],
      stateMutability = JUndefined, state_mutability = JUndefined\<rparr>"

definition balanceOf_fn :: abi_entry where
  "balanceOf_fn =
     \<lparr>abi_type = ''function'', name = ''balanceOf'',
      inputs = JArr [felt_input ''user''] [],
      stateMutability = JStr ''view'', state_mutability = JUndefined\<rparr>"

text \<open>A function of the schema that is called \<^verbatim>\<open>address\<close>.\<close>

definition address_fn :: abi_entry where
  "address_fn =
     \<lparr>abi_type = ''function'', name = ''address'', inputs = JArr [] [],
      stateMutability = JStr ''view'', state_mutability = JUndefined\<rparr>"

text \<open>A function called like a method of the class, and a second \<^verbatim>\<open>transfer\<close>.\<close>

definition attach_fn :: abi_entry where
  "attach_fn =
     \<lparr>abi_type = ''function'', name = ''attach'', inputs = JArr [] [],
      stateMutability = JUndefined, state_mutability = JUndefined\<rparr>"

definition transfer_view_fn :: abi_entry where
  "transfer_view_fn =
     \<lparr>abi_type = ''function'', name = ''transfer'', inputs = JArr [] [],
      stateMutability = JUndefined, state_mutability = JStr ''view''\<rparr>"

definition sample_abi :: "abi_entry list" where
  "sample_abi = [transfer_fn, balanceOf_fn]"

text \<open>An instance like the one the constructor leaves, with nothing bound.\<close>

definition bare_contract :: "abi_entry list \<Rightarrow> jsval \<Rightarrow> backend \<Rightarrow> contract" where
  "bare_contract a addr b =
     \<lparr>abi = a, providerOrAccount = b, callData = sample_CallData a,
      props = [''address'' \<mapsto> PVal addr],
      functions = Map.empty, callStatic = Map.empty,
      populateTransaction = Map.empty, estimateFee = Map.empty\<rparr>"

text \<open>A splitter on an argument list without options: its result has no \<^verbatim>\<open>options\<close>.\<close>

definition plain_splitter :: "jsval list \<Rightarrow> error + (jsval list \<times> jsval)" where
  "plain_splitter args = Inr (args, JUndefined)"

definition sample_factory :: ContractFactory where
  "sample_factory =
     \<lparr>cf_compiledContract = \<lparr>cc_abi = sample_abi, cc_program = JObj []\<rparr>,
      cf_account = sample_account,
      cf_abi = sample_abi,
      cf_classHash = JUndefined,
      cf_casm = JUndefined,
      cf_compiledClassHash = JUndefined,
      cf_CallData = sample_CallData sample_abi\<rparr>"

section \<open>Facts about effects\<close>

lemma io_bind_ret [simp]: "io_bind (ret x) f = f x"
  by (simp add: io_bind_def ret_def split: prod.splits)

lemma io_bind_throw [simp]: "io_bind (throw e) f = throw e"
  by (simp add: io_bind_def throw_def)

lemma io_bind_lift_Inr [simp]: "io_bind (lift (Inr x)) f = f x"
  by (simp add: io_bind_def lift_def split: prod.splits)

lemma io_bind_lift_Inl [simp]: "io_bind (lift (Inl e)) f = throw e"
  by (simp add: io_bind_def lift_def throw_def)

lemma io_bind_emit [simp]: "io_bind (emit ev) f = (ev # fst (f ()), snd (f ()))"
  by (simp add: io_bind_def emit_def split: prod.splits)

lemma fst_io_bind:
  "fst (io_bind m f) = fst m @ (case snd m of Inl e \<Rightarrow> [] | Inr x \<Rightarrow> fst (f x))"
  by (cases m; cases "snd m") (auto simp: io_bind_def split: prod.splits)

lemma list_all_io_bind:
  "list_all P (fst m) \<Longrightarrow> (\<And>x. list_all P (fst (f x))) \<Longrightarrow> list_all P (fst (io_bind m f))"
  by (simp add: fst_io_bind split: sum.splits)

lemma list_all_simple [simp]:
  "list_all P (fst (ret x))" "list_all P (fst (throw e))" "list_all P (fst (lift r))"
  "list_all P (fst (emit ev)) = P ev"
  "list_all P (fst (assert b msg))"
  by (simp_all add: ret_def throw_def lift_def emit_def assert_def)

lemma list_all_getCalldata:
  "list_all P (fst cb) \<Longrightarrow> list_all P (fst (getCalldata args cb))"
  by (simp add: getCalldata_def split: sum.splits)

lemma call_no_write: "list_all (\<lambda>ev. \<not> is_write ev) (fst (call c m a opts))"
  unfolding call_def Let_def do_validate_def do_compile_def do_parse_def do_format_def
  by (auto intro!: list_all_io_bind list_all_getCalldata split: option.splits)

lemma invoke_no_read: "list_all (\<lambda>ev. \<not> is_read ev) (fst (invoke c m a opts))"
  unfolding invoke_def Let_def do_validate_def do_compile_def do_parse_def do_format_def
  by (auto intro!: list_all_io_bind list_all_getCalldata split: option.splits)

lemmas io_defs = ret_def throw_def lift_def emit_def io_bind_def assert_def
  do_validate_def do_compile_def do_parse_def do_format_def getCalldata_def dflt_def Let_def

lemmas sample_defs = sample_CallData_def sample_provider_def sample_account_def
  felt_input_def transfer_fn_def balanceOf_fn_def address_fn_def attach_fn_def
  transfer_view_fn_def sample_abi_def
  bare_contract_def sample_factory_def failing_account_def plain_splitter_def

text \<open>How \<^verbatim>\<open>getCalldata\<close> resolves an argument value.\<close>

lemma precompiled_Some_getCalldata:
  "precompiled args = Some cd \<Longrightarrow> getCalldata args cb = ret cd"
  by (auto simp: precompiled_def getCalldata_def tagged_def split: if_splits sum.splits)

lemma precompiled_Some_dflt:
  "precompiled args = Some cd \<Longrightarrow> dflt args d = args"
  by (auto simp: precompiled_def dflt_def tagged_def split: if_splits)

lemma precompiled_None_getCalldata:
  "precompiled args = None \<Longrightarrow> index0 args = Inr a0 \<Longrightarrow> getCalldata args cb = cb"
  by (auto simp: precompiled_def getCalldata_def tagged_def split: if_splits)

lemma precompiled_None_index0_Inl:
  "index0 args = Inl e \<Longrightarrow> \<not> tagged args \<and> getCalldata args cb = throw e"
  by (cases args) (auto simp: getCalldata_def tagged_def)

lemma snd_io_bind_Inl:
  "(\<And>x. \<exists>e. snd (f x) = Inl e) \<Longrightarrow> \<exists>e. snd (io_bind m f) = Inl e"
proof -
  assume h: "\<And>x. \<exists>e. snd (f x) = Inl e"
  obtain t r where m: "m = (t, r)" by (cases m)
  show ?thesis
  proof (cases r)
    case (Inl e)
    with m show ?thesis by (simp add: io_bind_def)
  next
    case (Inr x)
    from h [of x] obtain e where "snd (f x) = Inl e" by blast
    with m Inr show ?thesis by (cases "f x") (simp add: io_bind_def)
  qed
qed

lemma dflt_idem: "dflt (dflt a d) d = dflt a d"
  by (simp add: dflt_def)

lemma populate_dflt: "populate c m (dflt args (JArr [] [])) = populate c m args"
  by (simp add: populate_def dflt_idem)

lemma index0_Inr: "a \<noteq> JUndefined \<Longrightarrow> a \<noteq> JNull \<Longrightarrow> \<exists>a0. index0 a = Inr a0"
  by (cases a) simp_all

lemma populate_Inr_index0:
  "populate c m args = (t, Inr i) \<Longrightarrow> precompiled (dflt args (JArr [] [])) = None \<Longrightarrow>
   \<exists>a0. index0 (dflt args (JArr [] [])) = Inr a0"
proof -
  assume p: "populate c m args = (t, Inr i)" and n: "precompiled (dflt args (JArr [] [])) = None"
  show ?thesis
  proof (cases "index0 (dflt args (JArr [] []))")
    case (Inl e)
    from precompiled_None_index0_Inl [OF Inl] p have False
      by (auto simp: populate_def Let_def throw_def io_bind_def split: option.splits)
    then show ?thesis ..
  next
    case (Inr a0)
    then show ?thesis by blast
  qed
qed

text \<open>What \<^verbatim>\<open>invoke\<close> and \<^verbatim>\<open>call\<close> read of an options object.\<close>

lemma invoke_reads:
  assumes "map_of kvs ''parseRequest'' = map_of kvs' ''parseRequest''"
    and "map_of kvs ''maxFee'' = map_of kvs' ''maxFee''"
    and "map_of kvs ''nonce'' = map_of kvs' ''nonce''"
    and "map_of kvs ''signature'' = map_of kvs' ''signature''"
  shows "invoke c m a (JObj kvs) = invoke c m a (JObj kvs')"
proof -
  have d: "dflt (JObj kvs) (JObj []) = JObj kvs" "dflt (JObj kvs') (JObj []) = JObj kvs'"
    by (simp_all add: dflt_def)
  have n: "(JObj kvs = JNull) = False" "(JObj kvs' = JNull) = False"
    by simp_all
  have eqs:
    "opt_member (JObj kvs) ''parseRequest'' = opt_member (JObj kvs') ''parseRequest''"
    "opt_member (JObj kvs) ''maxFee'' = opt_member (JObj kvs') ''maxFee''"
    "opt_member (JObj kvs) ''nonce'' = opt_member (JObj kvs') ''nonce''"
    "opt_member (JObj kvs) ''signature'' = opt_member (JObj kvs') ''signature''"
    using assms by simp_all
  show ?thesis
    unfolding invoke_def Let_def d n eqs by (rule refl)
qed

lemma call_reads:
  assumes "map_of kvs ''parseRequest'' = map_of kvs' ''parseRequest''"
    and "map_of kvs ''parseResponse'' = map_of kvs' ''parseResponse''"
    and "map_of kvs ''formatResponse'' = map_of kvs' ''formatResponse''"
    and "map_of kvs ''blockIdentifier'' = map_of kvs' ''blockIdentifier''"
  shows "call c m a (JObj kvs) = call c m a (JObj kvs')"
proof -
  have d: "dflt (JObj kvs) (JObj []) = JObj kvs" "dflt (JObj kvs') (JObj []) = JObj kvs'"
    by (simp_all add: dflt_def)
  have n: "(JObj kvs = JNull) = False" "(JObj kvs' = JNull) = False"
    by simp_all
  have eqs:
    "opt_member (JObj kvs) ''parseRequest'' = opt_member (JObj kvs') ''parseRequest''"
    "opt_member (JObj kvs) ''parseResponse'' = opt_member (JObj kvs') ''parseResponse''"
    "opt_member (JObj kvs) ''formatResponse'' = opt_member (JObj kvs') ''formatResponse''"
    "opt_member (JObj kvs) ''blockIdentifier'' = opt_member (JObj kvs') ''blockIdentifier''"
    using assms by simp_all
  show ?thesis
    unfolding call_def Let_def d n eqs by (rule refl)
qed

section \<open>Facts about construction\<close>

lemma bindAbiElement_fields [simp]:
  "abi (bindAbiElement e c) = abi c"
  "providerOrAccount (bindAbiElement e c) = providerOrAccount c"
  "callData (bindAbiElement e c) = callData c"
  by (simp_all add: bindAbiElement_def Let_def)

lemma fold_bindAbiElement_fields [simp]:
  "abi (fold bindAbiElement es c) = abi c"
  "providerOrAccount (fold bindAbiElement es c) = providerOrAccount c"
  "callData (fold bindAbiElement es c) = callData c"
  by (induction es arbitrary: c) simp_all

lemma bindAbiElement_props_other:
  "abi_type e \<noteq> ''function'' \<or> name e \<noteq> k \<Longrightarrow> props (bindAbiElement e c) k = props c k"
  by (auto simp: bindAbiElement_def Let_def)

lemma fold_bindAbiElement_props_other:
  "list_all (\<lambda>e. abi_type e \<noteq> ''function'' \<or> name e \<noteq> k) es \<Longrightarrow>
   props (fold bindAbiElement es c) k = props c k"
  by (induction es arbitrary: c) (simp_all add: bindAbiElement_props_other)

lemma Contract_fields:
  "Contract new es a p = Inr c \<Longrightarrow>
   abi c = es \<and> providerOrAccount c = p \<and> callData c = new es"
  by (auto simp: Contract_def split: if_splits jsval.splits)

lemma Contract_address:
  "Contract new es a p = Inr c \<Longrightarrow>
   list_all (\<lambda>e. abi_type e \<noteq> ''function'' \<or> name e \<noteq> ''address'') es \<Longrightarrow>
   address c = PVal (case a of JStr s \<Rightarrow> JStr (toLowerCase s) | _ \<Rightarrow> a)"
  by (auto simp: Contract_def address_def toLowerCase_def fold_bindAbiElement_props_other split: if_splits jsval.splits)

lemma Contract_falsy:
  "\<not> truthy a \<Longrightarrow> \<exists>c. Contract new es a p = Inr c"
  by (simp add: Contract_def)


lemmas bind_defs = Contract_def bindAbiElement_def this_get_def coll_get_def
  instance_objects_def class_members_def object_members_def
  buildDefault_def buildCall_def buildInvoke_def buildPopulate_def buildEstimate_def

lemma Contract_string: "\<exists>c. Contract new es (JStr s) p = Inr c"
  by (simp add: Contract_def)


section \<open>Facts about method binding\<close>

lemma bindAbiElement_props:
  "props (bindAbiElement e c) =
     (if abi_type e = ''function'' \<and> \<not> truthy_p (this_get c (name e))
      then (props c)(name e \<mapsto> PBound (buildDefault e)) else props c)"
  by (simp add: bindAbiElement_def Let_def)

lemma bindAbiElement_functions:
  "functions (bindAbiElement e c) =
     (if abi_type e = ''function'' \<and> \<not> truthy_p (coll_get (functions c) (name e))
      then (functions c)(name e \<mapsto> buildDefault e) else functions c)"
  by (simp add: bindAbiElement_def Let_def)

lemma bindAbiElement_callStatic:
  "callStatic (bindAbiElement e c) =
     (if abi_type e = ''function'' \<and> \<not> truthy_p (coll_get (callStatic c) (name e))
      then (callStatic c)(name e \<mapsto> buildCall e) else callStatic c)"
  by (simp add: bindAbiElement_def Let_def)

lemma bindAbiElement_populateTransaction:
  "populateTransaction (bindAbiElement e c) =
     (if abi_type e = ''function'' \<and> \<not> truthy_p (coll_get (populateTransaction c) (name e))
      then (populateTransaction c)(name e \<mapsto> buildPopulate e) else populateTransaction c)"
  by (simp add: bindAbiElement_def Let_def)

lemma bindAbiElement_estimateFee:
  "estimateFee (bindAbiElement e c) =
     (if abi_type e = ''function'' \<and> \<not> truthy_p (coll_get (estimateFee c) (name e))
      then (estimateFee c)(name e \<mapsto> buildEstimate e) else estimateFee c)"
  by (simp add: bindAbiElement_def Let_def)

lemma this_get_cong: "props c k = props c' k \<Longrightarrow> this_get c k = this_get c' k"
  by (simp add: this_get_def)

lemma bindAbiElement_keeps_truthy:
  "truthy_p (this_get c k) \<Longrightarrow> this_get (bindAbiElement e c) k = this_get c k"
  by (rule this_get_cong) (auto simp: bindAbiElement_props)

lemma fold_bindAbiElement_keeps_truthy:
  "truthy_p (this_get c k) \<Longrightarrow> this_get (fold bindAbiElement es c) k = this_get c k"
  by (induction es arbitrary: c) (simp_all add: bindAbiElement_keeps_truthy)

lemma coll_get_Some [simp]: "m k = Some f \<Longrightarrow> truthy_p (coll_get m k)"
  by (simp add: coll_get_def)

lemma bindAbiElement_keeps_entry:
  "functions c k = Some f \<Longrightarrow> functions (bindAbiElement e c) k = Some f"
  "callStatic c k = Some f \<Longrightarrow> callStatic (bindAbiElement e c) k = Some f"
  "populateTransaction c k = Some f \<Longrightarrow> populateTransaction (bindAbiElement e c) k = Some f"
  "estimateFee c k = Some f \<Longrightarrow> estimateFee (bindAbiElement e c) k = Some f"
  by (auto simp: bindAbiElement_functions bindAbiElement_callStatic
        bindAbiElement_populateTransaction bindAbiElement_estimateFee)

lemma fold_bindAbiElement_keeps_functions:
  "functions c k = Some f \<Longrightarrow> functions (fold bindAbiElement es c) k = Some f"
  by (induction es arbitrary: c) (simp_all add: bindAbiElement_keeps_entry)

lemma fold_bindAbiElement_keeps_callStatic:
  "callStatic c k = Some f \<Longrightarrow> callStatic (fold bindAbiElement es c) k = Some f"
  by (induction es arbitrary: c) (simp_all add: bindAbiElement_keeps_entry)

lemma fold_bindAbiElement_keeps_populateTransaction:
  "populateTransaction c k = Some f \<Longrightarrow> populateTransaction (fold bindAbiElement es c) k = Some f"
  by (induction es arbitrary: c) (simp_all add: bindAbiElement_keeps_entry)

lemma fold_bindAbiElement_keeps_estimateFee:
  "estimateFee c k = Some f \<Longrightarrow> estimateFee (fold bindAbiElement es c) k = Some f"
  by (induction es arbitrary: c) (simp_all add: bindAbiElement_keeps_entry)

lemma coll_get_None: "m k = None \<Longrightarrow> k \<notin> set object_members \<Longrightarrow> \<not> truthy_p (coll_get m k)"
  by (simp add: coll_get_def)

lemma fold_first_wins:
  assumes step: "\<And>x c. g (bindAbiElement x c) =
       (if abi_type x = ''function'' \<and> \<not> truthy_p (coll_get (g c) (name x))
        then (g c)(name x \<mapsto> mk x) else g c)"
    and "find (\<lambda>x. abi_type x = ''function'' \<and> name x = k) es = Some e"
    and "g c k = None" and "k \<notin> set object_members"
  shows "g (fold bindAbiElement es c) k = Some (mk e)"
  using assms(2,3)
proof (induction es arbitrary: c)
  case Nil
  then show ?case by simp
next
  case (Cons x xs)
  show ?case
  proof (cases "abi_type x = ''function'' \<and> name x = k")
    case True
    with Cons.prems have "x = e" by simp
    with True Cons.prems assms(4) have "g (bindAbiElement x c) k = Some (mk e)"
      by (simp add: step coll_get_None)
    moreover have keep1: "g c' k = Some f \<Longrightarrow> g (bindAbiElement y c') k = Some f" for c' f y
      by (auto simp: step)
    have "g c' k = Some f \<Longrightarrow> g (fold bindAbiElement ys c') k = Some f" for c' f ys
      by (induction ys arbitrary: c') (simp_all add: keep1)
    ultimately show ?thesis by simp
  next
    case False
    with Cons.prems have f: "find (\<lambda>x. abi_type x = ''function'' \<and> name x = k) xs = Some e"
      by auto
    from False Cons.prems have "g (bindAbiElement x c) k = None"
      by (auto simp: step)
    from Cons.IH [OF f this] show ?thesis by simp
  qed
qed

lemma fold_first_wins_props:
  assumes "find (\<lambda>x. abi_type x = ''function'' \<and> name x = k) es = Some e"
    and "\<not> truthy_p (this_get c k)"
  shows "props (fold bindAbiElement es c) k = Some (PBound (buildDefault e))"
  using assms
proof (induction es arbitrary: c)
  case Nil
  then show ?case by simp
next
  case (Cons x xs)
  show ?case
  proof (cases "abi_type x = ''function'' \<and> name x = k")
    case True
    with Cons.prems have "x = e" by simp
    with True Cons.prems have b: "props (bindAbiElement x c) k = Some (PBound (buildDefault e))"
      by (simp add: bindAbiElement_props)
    then have "this_get (bindAbiElement x c) k = PBound (buildDefault e)"
      by (simp add: this_get_def)
    then have "this_get (fold bindAbiElement xs (bindAbiElement x c)) k = PBound (buildDefault e)"
      by (simp add: fold_bindAbiElement_keeps_truthy)
    then show ?thesis by (auto simp: this_get_def split: option.splits if_splits)
  next
    case False
    with Cons.prems have f: "find (\<lambda>x. abi_type x = ''function'' \<and> name x = k) xs = Some e"
      by auto
    from False have "props (bindAbiElement x c) k = props c k"
      by (auto simp: bindAbiElement_props)
    with Cons.prems have "\<not> truthy_p (this_get (bindAbiElement x c) k)"
      by (simp add: this_get_def)
    from Cons.IH [OF f this] show ?thesis by simp
  qed
qed

lemma Contract_first_wins:
  "Contract new es a p = Inr c \<Longrightarrow>
   find (\<lambda>x. abi_type x = ''function'' \<and> name x = k) es = Some e \<Longrightarrow>
   k \<notin> set object_members \<Longrightarrow>
   populateTransaction c k = Some (buildPopulate e) \<and> estimateFee c k = Some (buildEstimate e)
   \<and> functions c k = Some (buildDefault e) \<and> callStatic c k = Some (buildCall e)"
proof -
  assume c: "Contract new es a p = Inr c"
    and e: "find (\<lambda>x. abi_type x = ''function'' \<and> name x = k) es = Some e"
    and k: "k \<notin> set object_members"
  from c obtain v where
    c_eq: "c = fold bindAbiElement es
         \<lparr>abi = es, providerOrAccount = p, callData = new es,
          props = [''address'' \<mapsto> PVal v],
          functions = Map.empty, callStatic = Map.empty,
          populateTransaction = Map.empty, estimateFee = Map.empty\<rparr>"
    by (auto simp: Contract_def split: sum.splits)
  have 1: "functions c k = Some (buildDefault e)"
    unfolding c_eq by (rule fold_first_wins [OF bindAbiElement_functions e _ k]) simp
  have 2: "callStatic c k = Some (buildCall e)"
    unfolding c_eq by (rule fold_first_wins [OF bindAbiElement_callStatic e _ k]) simp
  have 3: "populateTransaction c k = Some (buildPopulate e)"
    unfolding c_eq by (rule fold_first_wins [OF bindAbiElement_populateTransaction e _ k]) simp
  have 4: "estimateFee c k = Some (buildEstimate e)"
    unfolding c_eq by (rule fold_first_wins [OF bindAbiElement_estimateFee e _ k]) simp
  from 1 2 3 4 show ?thesis by simp
qed

text \<open>Where a bound operation comes from.\<close>

lemma fold_bound_origin:
  assumes step: "\<And>x c. g (bindAbiElement x c) =
       (if abi_type x = ''function'' \<and> \<not> truthy_p (coll_get (g c) (name x))
        then (g c)(name x \<mapsto> mk x) else g c)"
    and "g c k = None"
    and "g (fold bindAbiElement es c) k = Some op"
  shows "\<exists>e. find (\<lambda>x. abi_type x = ''function'' \<and> name x = k) es = Some e
           \<and> k \<notin> set object_members \<and> op = mk e"
  using assms(2,3)
proof (induction es arbitrary: c)
  case Nil
  then show ?case by simp
next
  case (Cons x xs)
  have keep1: "g c' k = Some f \<Longrightarrow> g (bindAbiElement y c') k = Some f" for c' f y
    by (auto simp: step)
  have keep: "g c' k = Some f \<Longrightarrow> g (fold bindAbiElement ys c') k = Some f" for c' f ys
    by (induction ys arbitrary: c') (simp_all add: keep1)
  show ?case
  proof (cases "abi_type x = ''function'' \<and> name x = k")
    case True
    show ?thesis
    proof (cases "k \<in> set object_members")
      case False
      with True Cons.prems have "g (bindAbiElement x c) k = Some (mk x)"
        by (simp add: step coll_get_None)
      from keep [OF this, of xs] Cons.prems(2) have "op = mk x" by simp
      with True False show ?thesis by simp
    next
      case k: True
      with True Cons.prems have "g (bindAbiElement x c) k = None"
        by (simp add: step coll_get_def)
      from Cons.IH [OF this] Cons.prems(2) k show ?thesis by simp
    qed
  next
    case False
    with Cons.prems have "g (bindAbiElement x c) k = None"
      by (auto simp: step)
    from Cons.IH [OF this] Cons.prems(2) False show ?thesis by auto
  qed
qed

lemma this_get_PBound: "this_get c k = PBound op \<longleftrightarrow> props c k = Some (PBound op)"
  by (auto simp: this_get_def split: option.splits if_splits)

lemma fold_bound_origin_props:
  assumes "\<not> truthy_p (this_get c k)"
    and "props (fold bindAbiElement es c) k = Some (PBound op)"
  shows "\<exists>e. find (\<lambda>x. abi_type x = ''function'' \<and> name x = k) es = Some e
           \<and> op = buildDefault e"
  using assms
proof (induction es arbitrary: c)
  case Nil
  then show ?case by (simp add: this_get_def)
next
  case (Cons x xs)
  show ?case
  proof (cases "abi_type x = ''function'' \<and> name x = k")
    case True
    with Cons.prems have "props (bindAbiElement x c) k = Some (PBound (buildDefault x))"
      by (simp add: bindAbiElement_props)
    then have "this_get (bindAbiElement x c) k = PBound (buildDefault x)"
      by (simp add: this_get_PBound)
    then have "this_get (fold bindAbiElement xs (bindAbiElement x c)) k = PBound (buildDefault x)"
      by (simp add: fold_bindAbiElement_keeps_truthy)
    with Cons.prems(2) have "op = buildDefault x"
      by (simp add: this_get_PBound)
    with True show ?thesis by simp
  next
    case False
    then have "props (bindAbiElement x c) k = props c k"
      by (auto simp: bindAbiElement_props)
    with Cons.prems have "\<not> truthy_p (this_get (bindAbiElement x c) k)"
      by (simp add: this_get_def)
    from Cons.IH [OF this] Cons.prems(2) False show ?thesis by auto
  qed
qed

lemma Contract_bound_origin:
  assumes c: "Contract new es a p = Inr c"
    and op: "functions c k = Some op \<or> props c k = Some (PBound op)"
  shows "\<exists>e. find (\<lambda>x. abi_type x = ''function'' \<and> name x = k) es = Some e
           \<and> op = buildDefault e"
proof -
  from c obtain v where
    c_eq: "c = fold bindAbiElement es
         \<lparr>abi = es, providerOrAccount = p, callData = new es,
          props = [''address'' \<mapsto> PVal v],
          functions = Map.empty, callStatic = Map.empty,
          populateTransaction = Map.empty, estimateFee = Map.empty\<rparr>"
    by (auto simp: Contract_def split: sum.splits)
  let ?c0 = "\<lparr>abi = es, providerOrAccount = p, callData = new es,
          props = [''address'' \<mapsto> PVal v],
          functions = Map.empty, callStatic = Map.empty,
          populateTransaction = Map.empty, estimateFee = Map.empty\<rparr>"
  from op show ?thesis
  proof
    assume "functions c k = Some op"
    then have "functions (fold bindAbiElement es ?c0) k = Some op" by (simp add: c_eq)
    from fold_bound_origin [OF bindAbiElement_functions _ this] show ?thesis by auto
  next
    assume b: "props c k = Some (PBound op)"
    then have b': "props (fold bindAbiElement es ?c0) k = Some (PBound op)" by (simp add: c_eq)
    show ?thesis
    proof (cases "truthy_p (this_get ?c0 k)")
      case True
      from fold_bindAbiElement_keeps_truthy [OF True, of es] b'
      have "this_get ?c0 k = PBound op"
        by (simp add: this_get_PBound [symmetric])
      then have False
        by (auto simp: this_get_def split: if_splits)
      then show ?thesis ..
    next
      case False
      from fold_bound_origin_props [OF False b'] show ?thesis .
    qed
  qed
qed

lemma Contract_first_wins_props:
  assumes c: "Contract new es a p = Inr c"
    and e: "find (\<lambda>x. abi_type x = ''function'' \<and> name x = k) es = Some e"
    and k: "k \<notin> set object_members" "k \<notin> set instance_objects" "k \<notin> set class_members"
      "k \<noteq> ''address''"
  shows "props c k = Some (PBound (buildDefault e))"
proof -
  from c obtain v where
    c_eq: "c = fold bindAbiElement es
         \<lparr>abi = es, providerOrAccount = p, callData = new es,
          props = [''address'' \<mapsto> PVal v],
          functions = Map.empty, callStatic = Map.empty,
          populateTransaction = Map.empty, estimateFee = Map.empty\<rparr>"
    by (auto simp: Contract_def split: sum.splits)
  show ?thesis
    unfolding c_eq
    by (rule fold_first_wins_props [OF e]) (use k in \<open>simp add: this_get_def\<close>)
qed

section \<open>Properties of the splitter\<close>

lemma some_in_JNull: "some_in (k # ks) JNull = Inl TypeError"
  by simp

lemma splitArgsAndOptions_JNull: "splitArgsAndOptions (xs @ [JNull]) = Inl TypeError"
  by (simp add: splitArgsAndOptions_def option_keys_def)

lemma some_in_JObj:
  "some_in ks (JObj kvs) = Inr (\<exists>k \<in> set ks. k \<in> fst ` set kvs)"
  by (induction ks) (auto split: bool.splits)

lemma splitArgsAndOptions_JObj:
  "splitArgsAndOptions (xs @ [JObj kvs]) =
     (if \<exists>k \<in> set option_keys. k \<in> fst ` set kvs
      then Inr (xs, JObj kvs)
      else Inr (xs @ [JObj kvs], JObj []))"
  by (simp add: splitArgsAndOptions_def some_in_JObj)

text \<open>
  C7. A trailing record with at least one recognised option key is taken off the
  argument list and returned as the options object, the values before it staying as the
  positional arguments; a trailing record with no recognised key stays where it is, and
  the options object is empty.
\<close>

theorem splitter_trailing_record:
  "splitArgsAndOptions (xs @ [JObj kvs]) =
     (if \<exists>k \<in> set option_keys. k \<in> fst ` set kvs
      then Inr (xs, JObj kvs)
      else Inr (xs @ [JObj kvs], JObj []))"
  by (simp add: splitArgsAndOptions_def some_in_JObj)

theorem splitter_trailing_record_witness:
  "splitArgsAndOptions [JNum 1, JNum 2, JObj [(''maxFee'', JNum 10)]] =
     Inr ([JNum 1, JNum 2], JObj [(''maxFee'', JNum 10)])
   \<and> splitArgsAndOptions [JNum 1, JNum 2, JObj [(''notAnOption'', JBool True)]] =
     Inr ([JNum 1, JNum 2, JObj [(''notAnOption'', JBool True)]], JObj [])"
  using splitter_trailing_record [of "[JNum 1, JNum 2]" "[(''maxFee'', JNum 10)]"]
        splitter_trailing_record [of "[JNum 1, JNum 2]" "[(''notAnOption'', JBool True)]"]
  by (simp add: option_keys_def)

section \<open>The address precondition\<close>

text \<open>
  C2. An instance built without an address (\<^verbatim>\<open>new Contract(abi, undefined, account)\<close>)
  holds \<^verbatim>\<open>undefined\<close> as its address. The guard \<^verbatim>\<open>this.address !== null\<close> lets it
  pass: \<^verbatim>\<open>call\<close>, \<^verbatim>\<open>invoke\<close> and \<^verbatim>\<open>estimate\<close> all reach the backend, with a request
  whose \<^verbatim>\<open>contractAddress\<close> is \<^verbatim>\<open>undefined\<close>, and none of them fails. Only an
  instance built with the address \<^verbatim>\<open>null\<close> is stopped by the guard, before anything
  is observed.
\<close>

theorem unset_address_reaches_backend:
  "(case Contract sample_CallData sample_abi JUndefined sample_account of
      Inl e \<Rightarrow> False
    | Inr c \<Rightarrow>
        address c = PVal JUndefined
        \<and> call c ''balanceOf'' (JArr [JNum 3] []) JUndefined =
            ([Validate CALL ''balanceOf'' (JArr [JNum 3] []),
              Compile (JArr [JNum 3] []) (inputs balanceOf_fn),
              CallContract
                \<lparr>contractAddress = PVal JUndefined,
                 calldata = JArr [JNum 3] [(''compiled'', JBool True)],
                 entrypoint = ''balanceOf''\<rparr> JUndefined,
              Parse ''balanceOf'' (JArr [JStr ''0x1''] [])],
             Inr (JArr [JStr ''0x1''] []))
        \<and> invoke c ''transfer'' (JArr [JNum 3, JNum 4] []) JUndefined =
            ([Validate INVOKE ''transfer'' (JArr [JNum 3, JNum 4] []),
              Compile (JArr [JNum 3, JNum 4] []) (inputs transfer_fn),
              Execute
                \<lparr>contractAddress = PVal JUndefined,
                 calldata = JArr [JNum 3, JNum 4] [(''compiled'', JBool True)],
                 entrypoint = ''transfer''\<rparr> JUndefined JUndefined],
             Inr (JObj [(''transaction_hash'', JStr ''0x8'')]))
        \<and> estimate c ''transfer'' (JArr [JNum 3, JNum 4] []) =
            ([Validate INVOKE ''transfer'' (JArr [JNum 3, JNum 4] []),
              Compile (JArr [JNum 3, JNum 4] []) (inputs transfer_fn),
              EstimateInvokeFee
                \<lparr>contractAddress = PVal JUndefined,
                 calldata = JArr [JNum 3, JNum 4] [(''compiled'', JBool True)],
                 entrypoint = ''transfer''\<rparr>],
             Inr (JObj [(''overall_fee'', JNum 5)])))
   \<and> (case Contract sample_CallData sample_abi JNull sample_account of
         Inl e \<Rightarrow> False
       | Inr c \<Rightarrow>
           call c ''balanceOf'' (JArr [JNum 3] []) JUndefined =
             ([], Inl (Error ''contract is not connected to an address''))
           \<and> invoke c ''transfer'' (JArr [JNum 3, JNum 4] []) JUndefined =
             ([], Inl (Error ''contract is not connected to an address''))
           \<and> estimate c ''transfer'' (JArr [JNum 3, JNum 4] []) =
             ([], Inl (Error ''contract is not connected to an address'')))"
proof -
  obtain d where d: "Contract sample_CallData sample_abi JNull sample_account = Inr d"
    using Contract_falsy [of JNull sample_CallData sample_abi sample_account] by auto
  have ad: "address d = PVal JNull"
    using Contract_address [OF d] by (simp add: sample_defs)
  have n: "call d ''balanceOf'' (JArr [JNum 3] []) JUndefined =
             ([], Inl (Error ''contract is not connected to an address''))"
      "invoke d ''transfer'' (JArr [JNum 3, JNum 4] []) JUndefined =
             ([], Inl (Error ''contract is not connected to an address''))"
      "estimate d ''transfer'' (JArr [JNum 3, JNum 4] []) =
             ([], Inl (Error ''contract is not connected to an address''))"
    by (simp_all add: call_def invoke_def estimate_def ad assert_def dflt_def Let_def throw_def
          io_bind_def)
  obtain c where c: "Contract sample_CallData sample_abi JUndefined sample_account = Inr c"
    using Contract_falsy [of JUndefined sample_CallData sample_abi sample_account] by auto
  have f: "abi c = sample_abi" "providerOrAccount c = sample_account"
      "callData c = sample_CallData sample_abi"
    using Contract_fields [OF c] by simp_all
  have a: "address c = PVal JUndefined"
    using Contract_address [OF c] by (simp add: sample_defs)
  have 1: "call c ''balanceOf'' (JArr [JNum 3] []) JUndefined =
            ([Validate CALL ''balanceOf'' (JArr [JNum 3] []),
              Compile (JArr [JNum 3] []) (inputs balanceOf_fn),
              CallContract
                \<lparr>contractAddress = PVal JUndefined,
                 calldata = JArr [JNum 3] [(''compiled'', JBool True)],
                 entrypoint = ''balanceOf''\<rparr> JUndefined,
              Parse ''balanceOf'' (JArr [JStr ''0x1''] [])],
             Inr (JArr [JStr ''0x1''] []))"
    by (simp add: call_def f a io_defs sample_defs)
  have 2: "invoke c ''transfer'' (JArr [JNum 3, JNum 4] []) JUndefined =
            ([Validate INVOKE ''transfer'' (JArr [JNum 3, JNum 4] []),
              Compile (JArr [JNum 3, JNum 4] []) (inputs transfer_fn),
              Execute
                \<lparr>contractAddress = PVal JUndefined,
                 calldata = JArr [JNum 3, JNum 4] [(''compiled'', JBool True)],
                 entrypoint = ''transfer''\<rparr> JUndefined JUndefined],
             Inr (JObj [(''transaction_hash'', JStr ''0x8'')]))"
    by (simp add: invoke_def f a io_defs sample_defs)
  have 3: "estimate c ''transfer'' (JArr [JNum 3, JNum 4] []) =
            ([Validate INVOKE ''transfer'' (JArr [JNum 3, JNum 4] []),
              Compile (JArr [JNum 3, JNum 4] []) (inputs transfer_fn),
              EstimateInvokeFee
                \<lparr>contractAddress = PVal JUndefined,
                 calldata = JArr [JNum 3, JNum 4] [(''compiled'', JBool True)],
                 entrypoint = ''transfer''\<rparr>],
             Inr (JObj [(''overall_fee'', JNum 5)]))"
    by (simp add: estimate_def populate_def f a io_defs sample_defs)
  show ?thesis using c a 1 2 3 d n by simp
qed

section \<open>Invoking without an account\<close>

text \<open>
  C5. Against a backend without \<^verbatim>\<open>execute\<close>, the nonce \<^verbatim>\<open>0\<close> that the caller
  supplies is rejected as if it were missing (\<^verbatim>\<open>!nonce\<close> holds of it), after
  validation and compilation; the nonce \<^verbatim>\<open>1\<close> goes through to \<^verbatim>\<open>invokeFunction\<close>
  with the warning, and a call without a nonce is rejected.
\<close>

theorem zero_nonce_rejected:
  "(case Contract sample_CallData sample_abi (JStr ''0x1'') sample_provider of
      Inl e \<Rightarrow> False
    | Inr c \<Rightarrow>
        invoke c ''transfer'' (JArr [JNum 3, JNum 4] []) (JObj [(''nonce'', JNum 0)]) =
          ([Validate INVOKE ''transfer'' (JArr [JNum 3, JNum 4] []),
            Compile (JArr [JNum 3, JNum 4] []) (inputs transfer_fn)],
           Inl (Error ''Nonce is required when invoking a function without an account''))
        \<and> invoke c ''transfer'' (JArr [JNum 3, JNum 4] []) (JObj [(''nonce'', JNum 1)]) =
          ([Validate INVOKE ''transfer'' (JArr [JNum 3, JNum 4] []),
            Compile (JArr [JNum 3, JNum 4] []) (inputs transfer_fn),
            Warn ''Invoking transfer without an account. This will not work on a public node.'',
            InvokeFunction
              \<lparr>contractAddress = PVal (JStr ''0x1''),
               calldata = JArr [JNum 3, JNum 4] [(''compiled'', JBool True)],
               entrypoint = ''transfer''\<rparr> JUndefined (JNum 1)],
           Inr (JObj [(''transaction_hash'', JStr ''0x7'')]))
        \<and> invoke c ''transfer'' (JArr [JNum 3, JNum 4] []) JUndefined =
          ([Validate INVOKE ''transfer'' (JArr [JNum 3, JNum 4] []),
            Compile (JArr [JNum 3, JNum 4] []) (inputs transfer_fn)],
           Inl (Error ''Nonce is required when invoking a function without an account'')))"
proof -
  obtain c where c: "Contract sample_CallData sample_abi (JStr ''0x1'') sample_provider = Inr c"
    using Contract_string [of sample_CallData sample_abi "''0x1''" sample_provider] by auto
  have f: "abi c = sample_abi" "providerOrAccount c = sample_provider"
      "callData c = sample_CallData sample_abi"
    using Contract_fields [OF c] by simp_all
  have a: "address c = PVal (JStr ''0x1'')"
    using Contract_address [OF c] by (simp add: sample_defs toLowerCase_def lower_char_def)
  have 1: "invoke c ''transfer'' (JArr [JNum 3, JNum 4] []) (JObj [(''nonce'', JNum 0)]) =
          ([Validate INVOKE ''transfer'' (JArr [JNum 3, JNum 4] []),
            Compile (JArr [JNum 3, JNum 4] []) (inputs transfer_fn)],
           Inl (Error ''Nonce is required when invoking a function without an account''))"
    by (simp add: invoke_def f a io_defs sample_defs)
  have 2: "invoke c ''transfer'' (JArr [JNum 3, JNum 4] []) (JObj [(''nonce'', JNum 1)]) =
          ([Validate INVOKE ''transfer'' (JArr [JNum 3, JNum 4] []),
            Compile (JArr [JNum 3, JNum 4] []) (inputs transfer_fn),
            Warn ''Invoking transfer without an account. This will not work on a public node.'',
            InvokeFunction
              \<lparr>contractAddress = PVal (JStr ''0x1''),
               calldata = JArr [JNum 3, JNum 4] [(''compiled'', JBool True)],
               entrypoint = ''transfer''\<rparr> JUndefined (JNum 1)],
           Inr (JObj [(''transaction_hash'', JStr ''0x7'')]))"
    by (simp add: invoke_def f a io_defs sample_defs)
  have 3: "invoke c ''transfer'' (JArr [JNum 3, JNum 4] []) JUndefined =
          ([Validate INVOKE ''transfer'' (JArr [JNum 3, JNum 4] []),
            Compile (JArr [JNum 3, JNum 4] []) (inputs transfer_fn)],
           Inl (Error ''Nonce is required when invoking a function without an account''))"
    by (simp add: invoke_def f a io_defs sample_defs)
  show ?thesis using c 1 2 3 by simp
qed

section \<open>A trailing null\<close>

text \<open>
  C10, counterexample. The bound operations that \<^verbatim>\<open>buildPopulate\<close> and
  \<^verbatim>\<open>buildEstimate\<close> make do not run the splitter. With \<^verbatim>\<open>null\<close> as the last argument,
  \<^verbatim>\<open>populateTransaction.transfer(3, null)\<close> compiles the arguments and returns the Call,
  and \<^verbatim>\<open>estimateFee.transfer(3, null)\<close> validates, compiles and reaches the backend.
\<close>

theorem populate_and_estimate_take_null:
  "(case Contract sample_CallData sample_abi (JStr ''0x1'') sample_account of
      Inl e \<Rightarrow> False
    | Inr c \<Rightarrow>
        populateTransaction c ''transfer'' = Some (buildPopulate transfer_fn)
        \<and> apply_bound c (buildPopulate transfer_fn) [JNum 3, JNull] =
            ([Compile (JArr [JNum 3, JNull] []) (inputs transfer_fn)],
             Inr (RCall \<lparr>contractAddress = PVal (JStr ''0x1''),
                        calldata = JArr [JNum 3, JNull] [(''compiled'', JBool True)],
                        entrypoint = ''transfer''\<rparr>))
        \<and> estimateFee c ''transfer'' = Some (buildEstimate transfer_fn)
        \<and> apply_bound c (buildEstimate transfer_fn) [JNum 3, JNull] =
            ([Validate INVOKE ''transfer'' (JArr [JNum 3, JNull] []),
              Compile (JArr [JNum 3, JNull] []) (inputs transfer_fn),
              EstimateInvokeFee
                \<lparr>contractAddress = PVal (JStr ''0x1''),
                 calldata = JArr [JNum 3, JNull] [(''compiled'', JBool True)],
                 entrypoint = ''transfer''\<rparr>],
             Inr (RVal (JObj [(''overall_fee'', JNum 5)]))))"
proof -
  obtain c where c: "Contract sample_CallData sample_abi (JStr ''0x1'') sample_account = Inr c"
    using Contract_string [of sample_CallData sample_abi "''0x1''" sample_account] by auto
  have f: "abi c = sample_abi" "providerOrAccount c = sample_account"
      "callData c = sample_CallData sample_abi"
    using Contract_fields [OF c] by simp_all
  have a: "address c = PVal (JStr ''0x1'')"
    using Contract_address [OF c] by (simp add: sample_defs toLowerCase_def lower_char_def)
  have e: "find (\<lambda>x. abi_type x = ''function'' \<and> name x = ''transfer'') sample_abi = Some transfer_fn"
    by (simp add: sample_abi_def transfer_fn_def)
  have k: "''transfer'' \<notin> set object_members"
    by (simp add: object_members_def)
  note b = Contract_first_wins [OF c e k]
  have 1: "apply_bound c (buildPopulate transfer_fn) [JNum 3, JNull] =
            ([Compile (JArr [JNum 3, JNull] []) (inputs transfer_fn)],
             Inr (RCall \<lparr>contractAddress = PVal (JStr ''0x1''),
                        calldata = JArr [JNum 3, JNull] [(''compiled'', JBool True)],
                        entrypoint = ''transfer''\<rparr>))"
    by (simp add: buildPopulate_def populate_def f a io_defs sample_defs)
  have 2: "apply_bound c (buildEstimate transfer_fn) [JNum 3, JNull] =
            ([Validate INVOKE ''transfer'' (JArr [JNum 3, JNull] []),
              Compile (JArr [JNum 3, JNull] []) (inputs transfer_fn),
              EstimateInvokeFee
                \<lparr>contractAddress = PVal (JStr ''0x1''),
                 calldata = JArr [JNum 3, JNull] [(''compiled'', JBool True)],
                 entrypoint = ''transfer''\<rparr>],
             Inr (RVal (JObj [(''overall_fee'', JNum 5)])))"
    by (simp add: buildEstimate_def estimate_def populate_def f a io_defs sample_defs)
  show ?thesis using c b 1 2 by simp
qed

text \<open>
  C10, as the code has it. The bound operations that run the splitter, those made by
  \<^verbatim>\<open>buildCall\<close>, \<^verbatim>\<open>buildInvoke\<close> and \<^verbatim>\<open>buildDefault\<close>, throw a \<^verbatim>\<open>TypeError\<close> on every
  argument list that ends in \<^verbatim>\<open>null\<close>, with nothing observed before it: no
  validation, no compilation, no request to the backend.
\<close>

theorem null_last_argument_throws:
  "apply_bound c (buildCall f) (xs @ [JNull]) = ([], Inl TypeError)
   \<and> apply_bound c (buildInvoke f) (xs @ [JNull]) = ([], Inl TypeError)
   \<and> apply_bound c (buildDefault f) (xs @ [JNull]) = ([], Inl TypeError)"
  by (simp add: buildDefault_def buildCall_def buildInvoke_def splitArgsAndOptions_JNull
        throw_def)

theorem null_last_argument_throws_witness:
  "apply_bound (bare_contract sample_abi (JStr ''0x1'') sample_account)
      (buildDefault transfer_fn) [JNum 3, JNull] = ([], Inl TypeError)
   \<and> apply_bound (bare_contract sample_abi (JStr ''0x1'') sample_account)
      (buildCall transfer_fn) [JNull] = ([], Inl TypeError)"
  using null_last_argument_throws
          [of "bare_contract sample_abi (JStr ''0x1'') sample_account" transfer_fn "[JNum 3]"]
        null_last_argument_throws
          [of "bare_contract sample_abi (JStr ''0x1'') sample_account" transfer_fn "[]"]
  by simp

section \<open>The option vocabulary of the two call paths\<close>

text \<open>
  C9, counterexample. On the invoke path a trailing record whose only key is
  \<^verbatim>\<open>blockIdentifier\<close>, an option of the read path alone, is taken off the argument list:
  the default operation of \<^verbatim>\<open>transfer\<close> validates and compiles the two arguments
  before it, not three.
\<close>

theorem invoke_path_takes_read_option:
  "splitArgsAndOptions [JNum 3, JNum 4, JObj [(''blockIdentifier'', JStr ''pending'')]] =
     Inr ([JNum 3, JNum 4], JObj [(''blockIdentifier'', JStr ''pending'')])
   \<and> (case Contract sample_CallData sample_abi (JStr ''0x1'') sample_account of
         Inl e \<Rightarrow> False
       | Inr c \<Rightarrow>
           functions c ''transfer'' = Some (buildInvoke transfer_fn)
           \<and> apply_bound c (buildInvoke transfer_fn)
                [JNum 3, JNum 4, JObj [(''blockIdentifier'', JStr ''pending'')]] =
               ([Validate INVOKE ''transfer'' (JArr [JNum 3, JNum 4] []),
                 Compile (JArr [JNum 3, JNum 4] []) (inputs transfer_fn),
                 Execute
                   \<lparr>contractAddress = PVal (JStr ''0x1''),
                    calldata = JArr [JNum 3, JNum 4] [(''compiled'', JBool True)],
                    entrypoint = ''transfer''\<rparr> JUndefined JUndefined],
                Inr (RVal (JObj [(''transaction_hash'', JStr ''0x8'')]))))"
proof -
  obtain c where c: "Contract sample_CallData sample_abi (JStr ''0x1'') sample_account = Inr c"
    using Contract_string [of sample_CallData sample_abi "''0x1''" sample_account] by auto
  have f: "abi c = sample_abi" "providerOrAccount c = sample_account"
      "callData c = sample_CallData sample_abi"
    using Contract_fields [OF c] by simp_all
  have a: "address c = PVal (JStr ''0x1'')"
    using Contract_address [OF c] by (simp add: sample_defs toLowerCase_def lower_char_def)
  have e: "find (\<lambda>x. abi_type x = ''function'' \<and> name x = ''transfer'') sample_abi = Some transfer_fn"
    by (simp add: sample_abi_def transfer_fn_def)
  have k: "''transfer'' \<notin> set object_members"
    by (simp add: object_members_def)
  have b: "functions c ''transfer'' = Some (buildInvoke transfer_fn)"
    using Contract_first_wins [OF c e k]
    by (simp add: buildDefault_def transfer_fn_def)
  have 0: "splitArgsAndOptions [JNum 3, JNum 4, JObj [(''blockIdentifier'', JStr ''pending'')]] =
     Inr ([JNum 3, JNum 4], JObj [(''blockIdentifier'', JStr ''pending'')])"
    by (simp add: splitArgsAndOptions_def option_keys_def)
  have 1: "apply_bound c (buildInvoke transfer_fn)
                [JNum 3, JNum 4, JObj [(''blockIdentifier'', JStr ''pending'')]] =
               ([Validate INVOKE ''transfer'' (JArr [JNum 3, JNum 4] []),
                 Compile (JArr [JNum 3, JNum 4] []) (inputs transfer_fn),
                 Execute
                   \<lparr>contractAddress = PVal (JStr ''0x1''),
                    calldata = JArr [JNum 3, JNum 4] [(''compiled'', JBool True)],
                    entrypoint = ''transfer''\<rparr> JUndefined JUndefined],
                Inr (RVal (JObj [(''transaction_hash'', JStr ''0x8'')])))"
    by (simp add: buildInvoke_def 0 invoke_def f a io_defs sample_defs)
  show ?thesis using c b 0 1 by simp
qed

text \<open>
  C9, as the code has it. There is one vocabulary, the seven keys of the splitter, for
  both paths: a trailing record with any of the seven keys is the options object of an
  invoke-style call as of a call-style call, spread over the fixed options, and a
  trailing record with none of them stays positional on both. What differs is what is
  read afterwards: \<^verbatim>\<open>invoke\<close> reads \<^verbatim>\<open>parseRequest\<close>, \<^verbatim>\<open>maxFee\<close>, \<^verbatim>\<open>nonce\<close> and
  \<^verbatim>\<open>signature\<close> only, \<^verbatim>\<open>call\<close> reads \<^verbatim>\<open>parseRequest\<close>, \<^verbatim>\<open>parseResponse\<close>,
  \<^verbatim>\<open>formatResponse\<close> and \<^verbatim>\<open>blockIdentifier\<close> only.
\<close>

theorem one_vocabulary_for_both_paths:
  "((\<exists>k \<in> set option_keys. k \<in> fst ` set kvs) \<longrightarrow>
      apply_bound c (buildCall f) (xs @ [JObj kvs]) =
        io_bind
          (call c (name f) (JArr xs [])
             (JObj (kvs @ [(''parseRequest'', JBool True), (''parseResponse'', JBool True)])))
          (\<lambda>r. ret (RVal r))
      \<and> apply_bound c (buildInvoke f) (xs @ [JObj kvs]) =
        io_bind
          (invoke c (name f) (JArr xs []) (JObj (kvs @ [(''parseRequest'', JBool True)])))
          (\<lambda>r. ret (RVal r)))
   \<and> (\<not> (\<exists>k \<in> set option_keys. k \<in> fst ` set kvs) \<longrightarrow>
      apply_bound c (buildCall f) (xs @ [JObj kvs]) =
        io_bind
          (call c (name f) (JArr (xs @ [JObj kvs]) [])
             (JObj [(''parseRequest'', JBool True), (''parseResponse'', JBool True)]))
          (\<lambda>r. ret (RVal r))
      \<and> apply_bound c (buildInvoke f) (xs @ [JObj kvs]) =
        io_bind
          (invoke c (name f) (JArr (xs @ [JObj kvs]) []) (JObj [(''parseRequest'', JBool True)]))
          (\<lambda>r. ret (RVal r)))
   \<and> ((\<forall>k \<in> {''parseRequest'', ''maxFee'', ''nonce'', ''signature''}.
          map_of kvs k = map_of kvs' k) \<longrightarrow>
        invoke c m a (JObj kvs) = invoke c m a (JObj kvs'))
   \<and> ((\<forall>k \<in> {''parseRequest'', ''parseResponse'', ''formatResponse'', ''blockIdentifier''}.
          map_of kvs k = map_of kvs' k) \<longrightarrow>
        call c m a (JObj kvs) = call c m a (JObj kvs'))"
  using invoke_reads [of kvs kvs' c m a] call_reads [of kvs kvs' c m a]
  by (simp add: buildCall_def buildInvoke_def splitArgsAndOptions_JObj)

theorem one_vocabulary_for_both_paths_witness:
  "apply_bound (bare_contract sample_abi (JStr ''0x1'') sample_account) (buildInvoke transfer_fn)
      [JNum 3, JNum 4, JObj [(''blockIdentifier'', JStr ''pending'')]] =
     io_bind
       (invoke (bare_contract sample_abi (JStr ''0x1'') sample_account) ''transfer''
          (JArr [JNum 3, JNum 4] [])
          (JObj [(''blockIdentifier'', JStr ''pending''), (''parseRequest'', JBool True)]))
       (\<lambda>r. ret (RVal r))
   \<and> invoke (bare_contract sample_abi (JStr ''0x1'') sample_account) ''transfer''
        (JArr [JNum 3, JNum 4] [])
        (JObj [(''blockIdentifier'', JStr ''pending''), (''parseRequest'', JBool True)]) =
      invoke (bare_contract sample_abi (JStr ''0x1'') sample_account) ''transfer''
        (JArr [JNum 3, JNum 4] []) (JObj [(''parseRequest'', JBool True)])
   \<and> apply_bound (bare_contract sample_abi (JStr ''0x1'') sample_account) (buildCall balanceOf_fn)
      [JNum 3, JObj [(''maxFee'', JNum 10)]] =
     io_bind
       (call (bare_contract sample_abi (JStr ''0x1'') sample_account) ''balanceOf''
          (JArr [JNum 3] [])
          (JObj [(''maxFee'', JNum 10), (''parseRequest'', JBool True),
                 (''parseResponse'', JBool True)]))
       (\<lambda>r. ret (RVal r))
   \<and> apply_bound (bare_contract sample_abi (JStr ''0x1'') sample_account) (buildInvoke transfer_fn)
      [JNum 3, JObj [(''notAnOption'', JBool True)]] =
     io_bind
       (invoke (bare_contract sample_abi (JStr ''0x1'') sample_account) ''transfer''
          (JArr [JNum 3, JObj [(''notAnOption'', JBool True)]] [])
          (JObj [(''parseRequest'', JBool True)]))
       (\<lambda>r. ret (RVal r))"
proof -
  let ?c = "bare_contract sample_abi (JStr ''0x1'') sample_account"
  have n: "name transfer_fn = ''transfer''" "name balanceOf_fn = ''balanceOf''"
    by (simp_all add: transfer_fn_def balanceOf_fn_def)
  from one_vocabulary_for_both_paths
         [of "[(''blockIdentifier'', JStr ''pending'')]" ?c transfer_fn "[JNum 3, JNum 4]"
             "[(''blockIdentifier'', JStr ''pending''), (''parseRequest'', JBool True)]"
             "''transfer''" "JArr [JNum 3, JNum 4] []"]
  have 1: "apply_bound ?c (buildInvoke transfer_fn)
      [JNum 3, JNum 4, JObj [(''blockIdentifier'', JStr ''pending'')]] =
     io_bind
       (invoke ?c ''transfer'' (JArr [JNum 3, JNum 4] [])
          (JObj [(''blockIdentifier'', JStr ''pending''), (''parseRequest'', JBool True)]))
       (\<lambda>r. ret (RVal r))"
    by (simp add: option_keys_def n)
  from one_vocabulary_for_both_paths
         [of "[(''blockIdentifier'', JStr ''pending''), (''parseRequest'', JBool True)]" ?c _ _
             "[(''parseRequest'', JBool True)]" "''transfer''" "JArr [JNum 3, JNum 4] []"]
  have 2: "invoke ?c ''transfer'' (JArr [JNum 3, JNum 4] [])
        (JObj [(''blockIdentifier'', JStr ''pending''), (''parseRequest'', JBool True)]) =
      invoke ?c ''transfer'' (JArr [JNum 3, JNum 4] []) (JObj [(''parseRequest'', JBool True)])"
    by simp
  from one_vocabulary_for_both_paths
         [of "[(''maxFee'', JNum 10)]" ?c balanceOf_fn "[JNum 3]"]
  have 3: "apply_bound ?c (buildCall balanceOf_fn) [JNum 3, JObj [(''maxFee'', JNum 10)]] =
     io_bind
       (call ?c ''balanceOf'' (JArr [JNum 3] [])
          (JObj [(''maxFee'', JNum 10), (''parseRequest'', JBool True),
                 (''parseResponse'', JBool True)]))
       (\<lambda>r. ret (RVal r))"
    by (simp add: option_keys_def n)
  from one_vocabulary_for_both_paths
         [of "[(''notAnOption'', JBool True)]" ?c transfer_fn "[JNum 3]"]
  have 4: "apply_bound ?c (buildInvoke transfer_fn) [JNum 3, JObj [(''notAnOption'', JBool True)]] =
     io_bind
       (invoke ?c ''transfer'' (JArr [JNum 3, JObj [(''notAnOption'', JBool True)]] [])
          (JObj [(''parseRequest'', JBool True)]))
       (\<lambda>r. ret (RVal r))"
    by (simp add: option_keys_def n)
  from 1 2 3 4 show ?thesis by simp
qed

section \<open>Pre-compiled Calldata\<close>

text \<open>
  C3. Let \<^verbatim>\<open>args\<close> carry compiled Calldata \<^verbatim>\<open>cd\<close>: \<^verbatim>\<open>args\<close> itself when it is tagged,
  else its tagged first element. On an instance whose address is not \<^verbatim>\<open>null\<close>,
  \<^verbatim>\<open>call\<close> sends \<^verbatim>\<open>cd\<close> unchanged in the Call of its request to \<^verbatim>\<open>callContract\<close>, which
  is the first thing observed, and nothing in its run is a validation or a compilation;
  \<^verbatim>\<open>invoke\<close> observes nothing but the request that carries \<^verbatim>\<open>cd\<close> unchanged
  (\<^verbatim>\<open>execute\<close>, or the warning and \<^verbatim>\<open>invokeFunction\<close> when there is a nonce and no
  account). \<^verbatim>\<open>populate\<close>, for a method that names an entry of the ABI, returns the Call
  with \<^verbatim>\<open>cd\<close> unchanged and observes nothing.
\<close>

theorem precompiled_passthrough:
  assumes "precompiled args = Some cd"
  shows
    "(address c \<noteq> PVal JNull \<longrightarrow> opts \<noteq> JNull \<longrightarrow>
        (\<exists>rest. fst (call c m args opts) =
           CallContract \<lparr>contractAddress = address c, calldata = cd, entrypoint = m\<rparr>
             (opt_member (dflt opts (JObj [])) ''blockIdentifier'') # rest)
        \<and> list_all (\<lambda>ev. \<not> is_validate_or_compile ev) (fst (call c m args opts)))
     \<and> (address c \<noteq> PVal JNull \<longrightarrow> opts \<noteq> JNull \<longrightarrow>
        fst (invoke c m args opts) =
          (case execute (providerOrAccount c) of
             Some exec \<Rightarrow>
               [Execute \<lparr>contractAddress = address c, calldata = cd, entrypoint = m\<rparr>
                  (opt_member (dflt opts (JObj [])) ''maxFee'')
                  (opt_member (dflt opts (JObj [])) ''nonce'')]
           | None \<Rightarrow>
               if truthy (opt_member (dflt opts (JObj [])) ''nonce'') then
                 [Warn (''Invoking '' @ m @
                    '' without an account. This will not work on a public node.''),
                  InvokeFunction \<lparr>contractAddress = address c, calldata = cd, entrypoint = m\<rparr>
                    (opt_member (dflt opts (JObj [])) ''signature'')
                    (opt_member (dflt opts (JObj [])) ''nonce'')]
               else []))
     \<and> (find (\<lambda>e. name e = m) (abi c) \<noteq> None \<longrightarrow>
        populate c m args =
          ([], Inr \<lparr>contractAddress = address c, calldata = cd, entrypoint = m\<rparr>))"
proof -
  note g = precompiled_Some_getCalldata [OF assms] precompiled_Some_dflt [OF assms]
  have n: "opts \<noteq> JNull \<Longrightarrow> dflt opts (JObj []) \<noteq> JNull"
    by (simp add: dflt_def)
  have 1: "\<exists>rest. fst (call c m args opts) =
           CallContract \<lparr>contractAddress = address c, calldata = cd, entrypoint = m\<rparr>
             (opt_member (dflt opts (JObj [])) ''blockIdentifier'') # rest"
    if "address c \<noteq> PVal JNull" "opts \<noteq> JNull"
    using that n by (simp add: call_def Let_def g assert_def)
  have 2: "list_all (\<lambda>ev. \<not> is_validate_or_compile ev) (fst (call c m args opts))"
    unfolding call_def Let_def g do_parse_def do_format_def
    by (auto intro!: list_all_io_bind)
  have 3: "fst (invoke c m args opts) =
          (case execute (providerOrAccount c) of
             Some exec \<Rightarrow>
               [Execute \<lparr>contractAddress = address c, calldata = cd, entrypoint = m\<rparr>
                  (opt_member (dflt opts (JObj [])) ''maxFee'')
                  (opt_member (dflt opts (JObj [])) ''nonce'')]
           | None \<Rightarrow>
               if truthy (opt_member (dflt opts (JObj [])) ''nonce'') then
                 [Warn (''Invoking '' @ m @
                    '' without an account. This will not work on a public node.''),
                  InvokeFunction \<lparr>contractAddress = address c, calldata = cd, entrypoint = m\<rparr>
                    (opt_member (dflt opts (JObj [])) ''signature'')
                    (opt_member (dflt opts (JObj [])) ''nonce'')]
               else [])"
    if "address c \<noteq> PVal JNull" "opts \<noteq> JNull"
    using that n
    by (simp add: invoke_def Let_def g assert_def lift_def throw_def
          split: option.splits)
  have 4: "populate c m args =
          ([], Inr \<lparr>contractAddress = address c, calldata = cd, entrypoint = m\<rparr>)"
    if "find (\<lambda>e. name e = m) (abi c) \<noteq> None"
    using that by (auto simp: populate_def Let_def g io_bind_def ret_def)
  from 1 2 3 4 show ?thesis by blast
qed

theorem precompiled_passthrough_witness:
  "fst (call (bare_contract sample_abi (JStr ''0x1'') sample_provider) ''balanceOf''
          (JArr [JStr ''0x5''] [(''compiled'', JBool True)]) JUndefined) =
     [CallContract
        \<lparr>contractAddress = PVal (JStr ''0x1''),
         calldata = JArr [JStr ''0x5''] [(''compiled'', JBool True)],
         entrypoint = ''balanceOf''\<rparr> JUndefined,
      Parse ''balanceOf'' (JArr [JStr ''0x1''] [])]
   \<and> list_all (\<lambda>ev. \<not> is_validate_or_compile ev)
        (fst (call (bare_contract sample_abi (JStr ''0x1'') sample_provider) ''balanceOf''
                (JArr [JStr ''0x5''] [(''compiled'', JBool True)]) JUndefined))
   \<and> fst (invoke (bare_contract sample_abi (JStr ''0x1'') sample_account) ''transfer''
          (JArr [JArr [JStr ''0x5'', JStr ''0x6''] [(''compiled'', JBool True)]] []) JUndefined) =
     [Execute
        \<lparr>contractAddress = PVal (JStr ''0x1''),
         calldata = JArr [JStr ''0x5'', JStr ''0x6''] [(''compiled'', JBool True)],
         entrypoint = ''transfer''\<rparr> JUndefined JUndefined]
   \<and> populate (bare_contract sample_abi (JStr ''0x1'') sample_provider) ''transfer''
        (JArr [JStr ''0x5'', JStr ''0x6''] [(''compiled'', JBool True)]) =
     ([], Inr \<lparr>contractAddress = PVal (JStr ''0x1''),
               calldata = JArr [JStr ''0x5'', JStr ''0x6''] [(''compiled'', JBool True)],
               entrypoint = ''transfer''\<rparr>)"
proof -
  let ?p = "bare_contract sample_abi (JStr ''0x1'') sample_provider"
  let ?a = "bare_contract sample_abi (JStr ''0x1'') sample_account"
  have p1: "precompiled (JArr [JStr ''0x5''] [(''compiled'', JBool True)]) =
      Some (JArr [JStr ''0x5''] [(''compiled'', JBool True)])"
    by (simp add: precompiled_def tagged_def)
  have p2: "precompiled (JArr [JArr [JStr ''0x5'', JStr ''0x6''] [(''compiled'', JBool True)]] []) =
      Some (JArr [JStr ''0x5'', JStr ''0x6''] [(''compiled'', JBool True)])"
    by (simp add: precompiled_def tagged_def)
  have p3: "precompiled (JArr [JStr ''0x5'', JStr ''0x6''] [(''compiled'', JBool True)]) =
      Some (JArr [JStr ''0x5'', JStr ''0x6''] [(''compiled'', JBool True)])"
    by (simp add: precompiled_def tagged_def)
  have a: "address ?p = PVal (JStr ''0x1'')" "address ?a = PVal (JStr ''0x1'')"
    by (simp_all add: address_def bare_contract_def)
  have f: "find (\<lambda>e. name e = ''transfer'') (abi ?p) \<noteq> None"
    by (simp add: sample_defs)
  have x: "execute (providerOrAccount ?a) =
      Some (\<lambda>cl mf n. Inr (JObj [(''transaction_hash'', JStr ''0x8'')]))"
    by (simp add: bare_contract_def sample_account_def)
  have t: "fst (call ?p ''balanceOf''
          (JArr [JStr ''0x5''] [(''compiled'', JBool True)]) JUndefined) =
     [CallContract
        \<lparr>contractAddress = PVal (JStr ''0x1''),
         calldata = JArr [JStr ''0x5''] [(''compiled'', JBool True)],
         entrypoint = ''balanceOf''\<rparr> JUndefined,
      Parse ''balanceOf'' (JArr [JStr ''0x1''] [])]"
    by (simp add: call_def address_def io_defs sample_defs)
  from precompiled_passthrough [OF p1, of ?p JUndefined "''balanceOf''"]
       precompiled_passthrough [OF p2, of ?a JUndefined "''transfer''"]
       precompiled_passthrough [OF p3, of ?p JUndefined "''transfer''"]
       a f x t
  show ?thesis by (simp add: dflt_def)
qed

section \<open>Estimating without the capability\<close>

text \<open>
  C4. On a backend without \<^verbatim>\<open>estimateInvokeFee\<close>, \<^verbatim>\<open>estimate\<close> never returns a
  value. On an instance whose address is not \<^verbatim>\<open>null\<close>, whenever \<^verbatim>\<open>populate\<close> on the
  same method and arguments succeeds, \<^verbatim>\<open>estimate\<close> fails with the error ``Contract must
  be connected to the account contract to estimate'', and what it has observed by then
  is what \<^verbatim>\<open>populate\<close> observes while it builds the Call, preceded, when the arguments
  are not pre-compiled Calldata and pass validation, by the validation under
  \<^verbatim>\<open>INVOKE\<close>. When the arguments are not pre-compiled (and not \<^verbatim>\<open>null\<close>), that
  validation is the first thing \<^verbatim>\<open>estimate\<close> does.
\<close>

theorem estimate_without_fee_capability:
  assumes "estimateInvokeFee (providerOrAccount c) = None"
  shows
    "(\<exists>e. snd (estimate c m args) = Inl e)
     \<and> (address c \<noteq> PVal JNull \<longrightarrow> populate c m args = (t, Inr invocation) \<longrightarrow>
          (case precompiled (dflt args (JArr [] [])) of
             Some cd \<Rightarrow>
               estimate c m args =
                 (t, Inl (Error ''Contract must be connected to the account contract to estimate''))
           | None \<Rightarrow>
               (validate (callData c) INVOKE m (dflt args (JArr [] [])) = None \<longrightarrow>
                estimate c m args =
                  (Validate INVOKE m (dflt args (JArr [] [])) # t,
                   Inl (Error ''Contract must be connected to the account contract to estimate'')))))
     \<and> (address c \<noteq> PVal JNull \<longrightarrow> precompiled (dflt args (JArr [] [])) = None \<longrightarrow>
          dflt args (JArr [] []) \<noteq> JNull \<longrightarrow>
          (\<exists>t'. fst (estimate c m args) = Validate INVOKE m (dflt args (JArr [] [])) # t'))"
proof -
  let ?a = "dflt args (JArr [] [])"
  have 1: "\<exists>e. snd (estimate c m args) = Inl e"
    unfolding estimate_def Let_def
    by (intro snd_io_bind_Inl) (simp add: assms throw_def)
  have 2: "estimate c m args =
      (t, Inl (Error ''Contract must be connected to the account contract to estimate''))"
    if "address c \<noteq> PVal JNull" "populate c m args = (t, Inr invocation)"
      "precompiled ?a = Some cd" for cd
  proof -
    have "tagged cd"
      using that(3) by (auto simp: precompiled_def split: if_splits sum.splits)
    then have "truthy cd"
      by (cases cd) (simp_all add: tagged_def)
    with that show ?thesis
      by (simp add: estimate_def Let_def assert_def precompiled_Some_getCalldata populate_dflt
            assms io_bind_def throw_def ret_def)
  qed
  have 3: "estimate c m args =
      (Validate INVOKE m ?a # t,
       Inl (Error ''Contract must be connected to the account contract to estimate''))"
    if "address c \<noteq> PVal JNull" "populate c m args = (t, Inr invocation)"
      "precompiled ?a = None" "validate (callData c) INVOKE m ?a = None"
  proof -
    from populate_Inr_index0 [OF that(2,3)] obtain a0 where "index0 ?a = Inr a0" by blast
    note g = precompiled_None_getCalldata [OF that(3) this]
    from that show ?thesis
      by (simp add: estimate_def Let_def assert_def g populate_dflt do_validate_def
            assms io_bind_def throw_def ret_def emit_def)
  qed
  have 4: "\<exists>t'. fst (estimate c m args) = Validate INVOKE m ?a # t'"
    if "address c \<noteq> PVal JNull" "precompiled ?a = None" "?a \<noteq> JNull"
  proof -
    have "?a \<noteq> JUndefined" by (simp add: dflt_def)
    from index0_Inr [OF this that(3)] obtain a0 where "index0 ?a = Inr a0" by blast
    note g = precompiled_None_getCalldata [OF that(2) this]
    from that show ?thesis
      by (simp add: estimate_def Let_def assert_def g do_validate_def fst_io_bind)
  qed
  from 1 2 3 4 show ?thesis
    by (auto split: option.splits)
qed

theorem estimate_without_fee_capability_witness:
  "populate (bare_contract sample_abi (JStr ''0x1'') sample_provider) ''transfer''
      (JArr [JNum 3, JNum 4] []) =
     ([Compile (JArr [JNum 3, JNum 4] []) (inputs transfer_fn)],
      Inr \<lparr>contractAddress = PVal (JStr ''0x1''),
           calldata = JArr [JNum 3, JNum 4] [(''compiled'', JBool True)],
           entrypoint = ''transfer''\<rparr>)
   \<and> estimate (bare_contract sample_abi (JStr ''0x1'') sample_provider) ''transfer''
      (JArr [JNum 3, JNum 4] []) =
     ([Validate INVOKE ''transfer'' (JArr [JNum 3, JNum 4] []),
       Compile (JArr [JNum 3, JNum 4] []) (inputs transfer_fn)],
      Inl (Error ''Contract must be connected to the account contract to estimate''))
   \<and> populate (bare_contract sample_abi (JStr ''0x1'') sample_provider) ''transfer''
      (JArr [JStr ''0x5'', JStr ''0x6''] [(''compiled'', JBool True)]) =
     ([], Inr \<lparr>contractAddress = PVal (JStr ''0x1''),
               calldata = JArr [JStr ''0x5'', JStr ''0x6''] [(''compiled'', JBool True)],
               entrypoint = ''transfer''\<rparr>)
   \<and> estimate (bare_contract sample_abi (JStr ''0x1'') sample_provider) ''transfer''
      (JArr [JStr ''0x5'', JStr ''0x6''] [(''compiled'', JBool True)]) =
     ([], Inl (Error ''Contract must be connected to the account contract to estimate''))"
proof -
  let ?c = "bare_contract sample_abi (JStr ''0x1'') sample_provider"
  let ?raw = "JArr [JNum 3, JNum 4] []"
  let ?cd = "JArr [JStr ''0x5'', JStr ''0x6''] [(''compiled'', JBool True)]"
  have cap: "estimateInvokeFee (providerOrAccount ?c) = None"
    by (simp add: bare_contract_def sample_provider_def)
  have a: "address ?c \<noteq> PVal JNull"
    by (simp add: address_def bare_contract_def)
  have p1: "populate ?c ''transfer'' ?raw =
     ([Compile (JArr [JNum 3, JNum 4] []) (inputs transfer_fn)],
      Inr \<lparr>contractAddress = PVal (JStr ''0x1''),
           calldata = JArr [JNum 3, JNum 4] [(''compiled'', JBool True)],
           entrypoint = ''transfer''\<rparr>)"
    by (simp add: populate_def address_def io_defs sample_defs)
  have p2: "populate ?c ''transfer'' ?cd =
     ([], Inr \<lparr>contractAddress = PVal (JStr ''0x1''), calldata = ?cd,
               entrypoint = ''transfer''\<rparr>)"
    by (simp add: populate_def address_def io_defs sample_defs)
  have n1: "precompiled (dflt ?raw (JArr [] [])) = None" "dflt ?raw (JArr [] []) = ?raw"
    by (simp_all add: precompiled_def tagged_def dflt_def)
  have n2: "precompiled (dflt ?cd (JArr [] [])) = Some ?cd"
    by (simp add: precompiled_def tagged_def dflt_def)
  have v: "validate (callData ?c) INVOKE ''transfer'' ?raw = None"
    by (simp add: bare_contract_def sample_CallData_def)
  from estimate_without_fee_capability [OF cap, of "''transfer''" ?raw _ _]
       estimate_without_fee_capability [OF cap, of "''transfer''" ?cd _ _]
       a p1 p2 n1 n2 v
  show ?thesis by simp
qed

section \<open>Mutability routing\<close>

text \<open>
  C1. In the instance the constructor returns, every operation found under a name in
  \<^verbatim>\<open>functions\<close>, or bound under that name on the instance itself, is the default
  operation (\<^verbatim>\<open>buildDefault\<close>) of the first function entry of that name in the schema.
  Conversely the first function entry of a name has its default operation bound in
  \<^verbatim>\<open>functions\<close> when the name is no member of \<^verbatim>\<open>Object.prototype\<close>, and on the
  instance itself when the name is moreover none of the instance's own (its objects,
  the methods of the class, \<^verbatim>\<open>address\<close>); a later entry of the same name produces no
  operation. The default operation of an entry tagged \<^verbatim>\<open>view\<close> (under either spelling
  of the tag) is the one \<^verbatim>\<open>buildCall\<close> makes: on whatever state the instance is in, it
  splits its arguments and calls \<^verbatim>\<open>Contract.call\<close>, and no request of the write path is
  among its effects. The default operation of every other entry is the one
  \<^verbatim>\<open>buildInvoke\<close> makes: it calls \<^verbatim>\<open>Contract.invoke\<close>, and no request of the read path
  is among its effects. The decision is a function of the entry alone.
\<close>

theorem default_routing:
  assumes "Contract new es a p = Inr c"
  shows
    "((functions c k = Some op \<or> props c k = Some (PBound op)) \<longrightarrow>
        (\<exists>e. find (\<lambda>x. abi_type x = ''function'' \<and> name x = k) es = Some e
             \<and> op = buildDefault e))
     \<and> (find (\<lambda>x. abi_type x = ''function'' \<and> name x = k) es = Some e \<longrightarrow>
          (k \<notin> set object_members \<longrightarrow> functions c k = Some (buildDefault e))
          \<and> (k \<notin> set object_members \<longrightarrow> k \<notin> set instance_objects \<longrightarrow>
               k \<notin> set class_members \<longrightarrow> k \<noteq> ''address'' \<longrightarrow>
               props c k = Some (PBound (buildDefault e))))
     \<and> (stateMutability e = JStr ''view'' \<or> state_mutability e = JStr ''view'' \<longrightarrow>
          buildDefault e = buildCall e
          \<and> apply_bound c' (buildDefault e) args =
              io_bind (lift (splitArgsAndOptions args))
                (\<lambda>params.
                   io_bind
                     (call c' (name e) (JArr (fst params) [])
                        (JObj (spread [(''parseRequest'', JBool True),
                                       (''parseResponse'', JBool True)]
                                 (snd params))))
                     (\<lambda>r. ret (RVal r)))
          \<and> list_all (\<lambda>ev. \<not> is_write ev) (fst (apply_bound c' (buildDefault e) args)))
     \<and> (\<not> (stateMutability e = JStr ''view'' \<or> state_mutability e = JStr ''view'') \<longrightarrow>
          buildDefault e = buildInvoke e
          \<and> apply_bound c' (buildDefault e) args =
              io_bind (lift (splitArgsAndOptions args))
                (\<lambda>params.
                   io_bind
                     (invoke c' (name e) (JArr (fst params) [])
                        (JObj (spread [(''parseRequest'', JBool True)] (snd params))))
                     (\<lambda>r. ret (RVal r)))
          \<and> list_all (\<lambda>ev. \<not> is_read ev) (fst (apply_bound c' (buildDefault e) args)))"
proof -
  have origin: "\<exists>e. find (\<lambda>x. abi_type x = ''function'' \<and> name x = k) es = Some e
             \<and> op = buildDefault e"
    if "functions c k = Some op \<or> props c k = Some (PBound op)"
    using Contract_bound_origin [OF assms that] .
  have bound: "functions c k = Some (buildDefault e)"
    if "find (\<lambda>x. abi_type x = ''function'' \<and> name x = k) es = Some e"
      "k \<notin> set object_members"
    using Contract_first_wins [OF assms that] by simp
  have bound_this: "props c k = Some (PBound (buildDefault e))"
    if "find (\<lambda>x. abi_type x = ''function'' \<and> name x = k) es = Some e"
      "k \<notin> set object_members" "k \<notin> set instance_objects" "k \<notin> set class_members"
      "k \<noteq> ''address''"
    using Contract_first_wins_props [OF assms that] .
  have rd: "list_all (\<lambda>ev. \<not> is_write ev) (fst (apply_bound c' (CallFn e) args))"
    by (auto intro!: list_all_io_bind call_no_write)
  have wr: "list_all (\<lambda>ev. \<not> is_read ev) (fst (apply_bound c' (InvokeFn e) args))"
    by (auto intro!: list_all_io_bind invoke_no_read)
  have route: "(stateMutability e = JStr ''view'' \<or> state_mutability e = JStr ''view'' \<longrightarrow>
          buildDefault e = buildCall e
          \<and> apply_bound c' (buildDefault e) args =
              io_bind (lift (splitArgsAndOptions args))
                (\<lambda>params.
                   io_bind
                     (call c' (name e) (JArr (fst params) [])
                        (JObj (spread [(''parseRequest'', JBool True),
                                       (''parseResponse'', JBool True)]
                                 (snd params))))
                     (\<lambda>r. ret (RVal r)))
          \<and> list_all (\<lambda>ev. \<not> is_write ev) (fst (apply_bound c' (buildDefault e) args)))
     \<and> (\<not> (stateMutability e = JStr ''view'' \<or> state_mutability e = JStr ''view'') \<longrightarrow>
          buildDefault e = buildInvoke e
          \<and> apply_bound c' (buildDefault e) args =
              io_bind (lift (splitArgsAndOptions args))
                (\<lambda>params.
                   io_bind
                     (invoke c' (name e) (JArr (fst params) [])
                        (JObj (spread [(''parseRequest'', JBool True)] (snd params))))
                     (\<lambda>r. ret (RVal r)))
          \<and> list_all (\<lambda>ev. \<not> is_read ev) (fst (apply_bound c' (buildDefault e) args)))"
    using rd wr by (simp add: buildDefault_def buildCall_def buildInvoke_def)
  from origin bound bound_this route show ?thesis by blast
qed

theorem default_routing_witness:
  "(case Contract sample_CallData [transfer_fn, transfer_view_fn, balanceOf_fn] (JStr ''0x1'')
           sample_account of
      Inl e \<Rightarrow> False
    | Inr c \<Rightarrow>
        functions c ''balanceOf'' = Some (buildCall balanceOf_fn)
        \<and> props c ''balanceOf'' = Some (PBound (buildCall balanceOf_fn))
        \<and> fst (apply_bound c (buildCall balanceOf_fn) [JNum 3]) =
            [Validate CALL ''balanceOf'' (JArr [JNum 3] []),
             Compile (JArr [JNum 3] []) (inputs balanceOf_fn),
             CallContract
               \<lparr>contractAddress = PVal (JStr ''0x1''),
                calldata = JArr [JNum 3] [(''compiled'', JBool True)],
                entrypoint = ''balanceOf''\<rparr> JUndefined,
             Parse ''balanceOf'' (JArr [JStr ''0x1''] [])]
        \<and> list_all (\<lambda>ev. \<not> is_write ev) (fst (apply_bound c (buildCall balanceOf_fn) [JNum 3]))
        \<and> functions c ''transfer'' = Some (buildInvoke transfer_fn)
        \<and> props c ''transfer'' = Some (PBound (buildInvoke transfer_fn))
        \<and> fst (apply_bound c (buildInvoke transfer_fn) [JNum 3, JNum 4]) =
            [Validate INVOKE ''transfer'' (JArr [JNum 3, JNum 4] []),
             Compile (JArr [JNum 3, JNum 4] []) (inputs transfer_fn),
             Execute
               \<lparr>contractAddress = PVal (JStr ''0x1''),
                calldata = JArr [JNum 3, JNum 4] [(''compiled'', JBool True)],
                entrypoint = ''transfer''\<rparr> JUndefined JUndefined]
        \<and> list_all (\<lambda>ev. \<not> is_read ev)
             (fst (apply_bound c (buildInvoke transfer_fn) [JNum 3, JNum 4])))"
proof -
  let ?es = "[transfer_fn, transfer_view_fn, balanceOf_fn]"
  obtain c where c: "Contract sample_CallData ?es (JStr ''0x1'') sample_account = Inr c"
    using Contract_string [of sample_CallData ?es "''0x1''" sample_account] by auto
  have f: "abi c = ?es" "providerOrAccount c = sample_account"
      "callData c = sample_CallData ?es"
    using Contract_fields [OF c] by simp_all
  have a: "address c = PVal (JStr ''0x1'')"
    using Contract_address [OF c] by (simp add: sample_defs toLowerCase_def lower_char_def)
  have e1: "find (\<lambda>x. abi_type x = ''function'' \<and> name x = ''balanceOf'') ?es = Some balanceOf_fn"
    by (simp add: transfer_fn_def transfer_view_fn_def balanceOf_fn_def)
  have e2: "find (\<lambda>x. abi_type x = ''function'' \<and> name x = ''transfer'') ?es = Some transfer_fn"
    by (simp add: transfer_fn_def)
  have k: "''balanceOf'' \<notin> set object_members" "''balanceOf'' \<notin> set instance_objects"
      "''balanceOf'' \<notin> set class_members"
      "''transfer'' \<notin> set object_members" "''transfer'' \<notin> set instance_objects"
      "''transfer'' \<notin> set class_members"
    by (simp_all add: object_members_def instance_objects_def class_members_def)
  have v: "stateMutability balanceOf_fn = JStr ''view''"
    by (simp add: balanceOf_fn_def)
  have nv: "\<not> (stateMutability transfer_fn = JStr ''view'' \<or> state_mutability transfer_fn = JStr ''view'')"
    by (simp add: transfer_fn_def)
  have t1: "fst (apply_bound c (CallFn balanceOf_fn) [JNum 3]) =
            [Validate CALL ''balanceOf'' (JArr [JNum 3] []),
             Compile (JArr [JNum 3] []) (inputs balanceOf_fn),
             CallContract
               \<lparr>contractAddress = PVal (JStr ''0x1''),
                calldata = JArr [JNum 3] [(''compiled'', JBool True)],
                entrypoint = ''balanceOf''\<rparr> JUndefined,
             Parse ''balanceOf'' (JArr [JStr ''0x1''] [])]"
    by (simp add: call_def f a splitArgsAndOptions_def io_defs sample_defs)
  have t2: "fst (apply_bound c (InvokeFn transfer_fn) [JNum 3, JNum 4]) =
            [Validate INVOKE ''transfer'' (JArr [JNum 3, JNum 4] []),
             Compile (JArr [JNum 3, JNum 4] []) (inputs transfer_fn),
             Execute
               \<lparr>contractAddress = PVal (JStr ''0x1''),
                calldata = JArr [JNum 3, JNum 4] [(''compiled'', JBool True)],
                entrypoint = ''transfer''\<rparr> JUndefined JUndefined]"
    by (simp add: invoke_def f a splitArgsAndOptions_def io_defs sample_defs)
  from default_routing [OF c, of "''balanceOf''" _ balanceOf_fn c "[JNum 3]"]
       default_routing [OF c, of "''transfer''" _ transfer_fn c "[JNum 3, JNum 4]"]
       c e1 e2 k v nv t1 t2
  show ?thesis by (simp add: buildCall_def buildInvoke_def)
qed

section \<open>Method binding\<close>

text \<open>
  C6. The guard of binding is \<^verbatim>\<open>!this[signature]\<close>, so a property that exists with a
  falsy value is replaced. With the schema function \<^verbatim>\<open>address\<close> and the empty string
  as address, \<^verbatim>\<open>this.address\<close> exists before binding and holds the bound operation
  after construction; \<^verbatim>\<open>call\<close> then passes the guard and sends that function as
  \<^verbatim>\<open>contractAddress\<close>, and \<^verbatim>\<open>attach\<close> throws on the read-only property. The same
  replacement happens for an address left unset. With a given address the property is
  kept, as is the method \<^verbatim>\<open>attach\<close> under a schema function of that name, and of two
  schema functions called \<^verbatim>\<open>transfer\<close> the first is bound everywhere.
\<close>

theorem binding_overwrites_falsy_address:
  "(case Contract sample_CallData [address_fn] (JStr []) sample_provider of
      Inl e \<Rightarrow> False
    | Inr c \<Rightarrow>
        address c = PBound (buildDefault address_fn)
        \<and> fst (call c ''address'' (JArr [] []) JUndefined) =
            [Validate CALL ''address'' (JArr [] []),
             Compile (JArr [] []) (JArr [] []),
             CallContract
               \<lparr>contractAddress = PBound (CallFn address_fn),
                calldata = JArr [] [(''compiled'', JBool True)],
                entrypoint = ''address''\<rparr> JUndefined,
             Parse ''address'' (JArr [JStr ''0x1''] [])]
        \<and> attach c (JStr ''0x1'') = Inl TypeError)
   \<and> (case Contract sample_CallData [address_fn] JUndefined sample_provider of
         Inl e \<Rightarrow> False
       | Inr c \<Rightarrow> address c = PBound (buildDefault address_fn))
   \<and> this_get (bare_contract [address_fn] (JStr []) sample_provider) ''address'' = PVal (JStr [])
   \<and> abi_type address_fn = ''function'' \<and> name address_fn = ''address''
   \<and> this_get (bindAbiElement address_fn (bare_contract [address_fn] (JStr []) sample_provider))
         ''address'' = PBound (buildDefault address_fn)
   \<and> (case Contract sample_CallData [address_fn] (JStr ''0x1'') sample_provider of
         Inl e \<Rightarrow> False
       | Inr c \<Rightarrow> address c = PVal (JStr ''0x1''))
   \<and> (case Contract sample_CallData [attach_fn] (JStr ''0x1'') sample_provider of
         Inl e \<Rightarrow> False
       | Inr c \<Rightarrow> this_get c ''attach'' = PInherited ''attach'')
   \<and> (case Contract sample_CallData [transfer_fn, transfer_view_fn] (JStr ''0x1'')
              sample_provider of
         Inl e \<Rightarrow> False
       | Inr c \<Rightarrow>
           functions c ''transfer'' = Some (buildDefault transfer_fn)
           \<and> callStatic c ''transfer'' = Some (buildCall transfer_fn)
           \<and> populateTransaction c ''transfer'' = Some (buildPopulate transfer_fn)
           \<and> estimateFee c ''transfer'' = Some (buildEstimate transfer_fn)
           \<and> props c ''transfer'' = Some (PBound (buildDefault transfer_fn)))"
proof -
  have e: "find (\<lambda>x. abi_type x = ''function'' \<and> name x = ''address'') [address_fn] =
      Some address_fn"
    by (simp add: address_fn_def)
  have bd: "buildDefault address_fn = CallFn address_fn"
    by (simp add: buildDefault_def buildCall_def address_fn_def)
  obtain c where c: "Contract sample_CallData [address_fn] (JStr []) sample_provider = Inr c"
    using Contract_string [of sample_CallData "[address_fn]" "[]" sample_provider] by auto
  have f: "abi c = [address_fn]" "providerOrAccount c = sample_provider"
      "callData c = sample_CallData [address_fn]"
    using Contract_fields [OF c] by simp_all
  have pc: "props c ''address'' = Some (PBound (buildDefault address_fn))"
    using c by (auto simp: Contract_def bindAbiElement_props this_get_def address_fn_def
                  toLowerCase_def)
  then have ac: "address c = PBound (CallFn address_fn)"
    by (simp add: address_def bd)
  have 1: "fst (call c ''address'' (JArr [] []) JUndefined) =
            [Validate CALL ''address'' (JArr [] []),
             Compile (JArr [] []) (JArr [] []),
             CallContract
               \<lparr>contractAddress = PBound (CallFn address_fn),
                calldata = JArr [] [(''compiled'', JBool True)],
                entrypoint = ''address''\<rparr> JUndefined,
             Parse ''address'' (JArr [JStr ''0x1''] [])]"
    by (simp add: call_def f ac io_defs sample_CallData_def sample_provider_def)
       (simp add: address_fn_def)
  have 2: "attach c (JStr ''0x1'') = Inl TypeError"
    by (simp add: attach_def pc)
  obtain u where u: "Contract sample_CallData [address_fn] JUndefined sample_provider = Inr u"
    using Contract_falsy [of JUndefined sample_CallData "[address_fn]" sample_provider] by auto
  have au: "address u = PBound (buildDefault address_fn)"
    using u by (auto simp: Contract_def bindAbiElement_props this_get_def address_fn_def
                  address_def)
  obtain g where g: "Contract sample_CallData [address_fn] (JStr ''0x1'') sample_provider = Inr g"
    using Contract_string [of sample_CallData "[address_fn]" "''0x1''" sample_provider] by auto
  have ag: "address g = PVal (JStr ''0x1'')"
    using g by (auto simp: Contract_def bindAbiElement_props this_get_def address_fn_def
                  address_def toLowerCase_def lower_char_def)
  obtain h where h: "Contract sample_CallData [attach_fn] (JStr ''0x1'') sample_provider = Inr h"
    using Contract_string [of sample_CallData "[attach_fn]" "''0x1''" sample_provider] by auto
  have ah: "this_get h ''attach'' = PInherited ''attach''"
    using h by (auto simp: Contract_def bindAbiElement_props this_get_def attach_fn_def
                  instance_objects_def class_members_def)
  obtain d where
    d: "Contract sample_CallData [transfer_fn, transfer_view_fn] (JStr ''0x1'') sample_provider = Inr d"
    using Contract_string
      [of sample_CallData "[transfer_fn, transfer_view_fn]" "''0x1''" sample_provider]
    by auto
  have ed: "find (\<lambda>x. abi_type x = ''function'' \<and> name x = ''transfer'')
             [transfer_fn, transfer_view_fn] = Some transfer_fn"
    by (simp add: transfer_fn_def)
  have k: "''transfer'' \<notin> set object_members" "''transfer'' \<notin> set instance_objects"
      "''transfer'' \<notin> set class_members"
    by (simp_all add: object_members_def instance_objects_def class_members_def)
  note w = Contract_first_wins [OF d ed k(1)]
  have wp: "props d ''transfer'' = Some (PBound (buildDefault transfer_fn))"
    using Contract_first_wins_props [OF d ed k] by simp
  have 3: "this_get (bare_contract [address_fn] (JStr []) sample_provider) ''address'' =
        PVal (JStr [])"
      "abi_type address_fn = ''function''" "name address_fn = ''address''"
      "this_get (bindAbiElement address_fn (bare_contract [address_fn] (JStr []) sample_provider))
         ''address'' = PBound (buildDefault address_fn)"
    by (simp_all add: bindAbiElement_props this_get_def bare_contract_def address_fn_def)
  show ?thesis
    using c ac 1 2 u au g ag h ah d w wp 3 by (simp add: bd)
qed

section \<open>Deployment\<close>



end
